theory Spec2Isabelle
  imports Complex_Main "HOL-Library.Word"
begin

section \<open>Layer normalization orchestration (aten/src/ATen/native/\<open>layer_norm.cpp\<close>)\<close>

text \<open>
  The file under verification orchestrates layer normalization: it validates shapes,
  allocates buffers, calls device kernels through a dispatch stub, and reshapes the
  statistics. The numeric kernels, the tensor library (allocation, views, elementwise
  operators) and the validation helper live outside the file. They are modelled as
  collaborators: each call is recorded in an event trace, and the contents a collaborator
  writes are symbolic values naming the call that produced them. Floating-point contents
  are never computed.

  Dimension sizes and the counts \<open>M\<close>, \<open>N\<close> are \<open>int64_t\<close> in the source and
  \<open>int\<close> here: the product of the sizes of a tensor that exists fits its type.
\<close>

subsection \<open>Tensors\<close>

text \<open>
  Strides are abstracted to a layout: a tensor is either contiguous, or strided, and then
  carries the predicate telling which target shapes its strides admit as a view.
\<close>

datatype layout = Contiguous | Strided "int list \<Rightarrow> bool"

text \<open>
  A \<open>double\<close> (the \<open>eps\<close> and \<open>momentum\<close> arguments) is only handed on to a
  collaborator, never computed with: it is kept as its 64-bit pattern.
\<close>

type_synonym double = "64 word"

text \<open>
  \<open>tensor\<close> is a defined tensor (shape, layout, contents); \<open>Tensor\<close> is the C++
  \<open>at::Tensor\<close> handle, which may be undefined. Contents are symbolic:
  \<open>Given k\<close> is data supplied by the caller, the other constructors name the
  collaborator call that wrote the buffer, with the output index where a call has several.
\<close>

datatype val =
    Given nat
  | Uninitialized
  | Zeros
  | LayerNormKernel_result nat tensor Tensor Tensor int int double
  | LayerNormBackwardKernel_result nat tensor tensor tensor tensor Tensor int int
  | native_batch_norm_result nat tensor Tensor Tensor Tensor Tensor bool double double
  | Addcmul tensor tensor tensor int
  | Mul tensor tensor
  | Add tensor tensor
and tensor = Tensor_impl (sizes: "int list") (layout: layout) (val: val)
and Tensor = Undefined | Defined tensor

fun defined :: "Tensor \<Rightarrow> bool" where
  "defined Undefined = False"
| "defined (Defined t) = True"

definition numel :: "tensor \<Rightarrow> int" where
  "numel t = prod_list (sizes t)"

definition is_contiguous :: "tensor \<Rightarrow> bool" where
  "is_contiguous t = (case layout t of Contiguous \<Rightarrow> True | Strided ok \<Rightarrow> False)"

text \<open>A tensor that exists has no negative dimension.\<close>

definition wf_tensor :: "tensor \<Rightarrow> bool" where
  "wf_tensor t = list_all (\<lambda>d. 0 \<le> d) (sizes t)"

subsection \<open>Errors and effects\<close>

datatype error = InvalidShape | UndefinedTensor | InvalidView | NotBroadcastable | NoChannels

datatype event =
    Alloc_contiguous_copy "int list"
  | Alloc_empty "int list"
  | Alloc_zeros "int list"
  | Alloc_result "int list"
  | Call_view "int list" "int list"
  | Call_LayerNormKernel int int
  | Call_LayerNormBackwardKernel int int bool bool bool
  | Call_native_batch_norm "int list"

text \<open>
  A computation yields an error or a result, and the events it caused, in order. An
  exception ends the computation and keeps the events that came before it.
\<close>

type_synonym 'a eff = "(error + 'a) \<times> event list"

definition ret :: "'a \<Rightarrow> 'a eff" where
  "ret x = (Inr x, [])"

definition throw :: "error \<Rightarrow> 'a eff" where
  "throw e = (Inl e, [])"

definition emit :: "event \<Rightarrow> unit eff" where
  "emit ev = (Inr (), [ev])"

definition andThen :: "'a eff \<Rightarrow> ('a \<Rightarrow> 'b eff) \<Rightarrow> 'b eff" where
  "andThen m f =
     (case m of
        (Inl e, tr) \<Rightarrow> (Inl e, tr)
      | (Inr x, tr) \<Rightarrow> (case f x of (r, tr') \<Rightarrow> (r, tr @ tr')))"

definition lift :: "error + 'a \<Rightarrow> 'a eff" where
  "lift r = (r, [])"

definition is_alloc :: "event \<Rightarrow> bool" where
  "is_alloc ev =
     (case ev of
        Alloc_contiguous_copy s \<Rightarrow> True
      | Alloc_empty s \<Rightarrow> True
      | Alloc_zeros s \<Rightarrow> True
      | Alloc_result s \<Rightarrow> True
      | _ \<Rightarrow> False)"

definition is_fwd_kernel :: "event \<Rightarrow> bool" where
  "is_fwd_kernel ev = (case ev of Call_LayerNormKernel M N \<Rightarrow> True | _ \<Rightarrow> False)"

definition is_bwd_kernel :: "event \<Rightarrow> bool" where
  "is_bwd_kernel ev =
     (case ev of Call_LayerNormBackwardKernel M N a b c \<Rightarrow> True | _ \<Rightarrow> False)"

definition is_batch_norm :: "event \<Rightarrow> bool" where
  "is_batch_norm ev = (case ev of Call_native_batch_norm s \<Rightarrow> True | _ \<Rightarrow> False)"

subsection \<open>Collaborators from the tensor library\<close>

text \<open>
  Modelled from the spec: the tensor library is missing from the sources. Section 9 has an
  optional argument present or absent; \<open>at::borrow_from_optional_tensor\<close> reads the
  empty optional as the undefined tensor.
\<close>

definition borrow_from_optional_tensor :: "Tensor option \<Rightarrow> Tensor" where
  "borrow_from_optional_tensor opt = (case opt of None \<Rightarrow> Undefined | Some t \<Rightarrow> t)"

text \<open>
  Modelled from the spec: \<open>Tensor::expect_contiguous\<close> (section 3: inputs are made
  contiguous before processing, copy-on-demand, and a copy is a fresh allocation). It
  borrows a tensor that is contiguous already and otherwise owns a contiguous copy. The
  undefined tensor counts as contiguous.
\<close>

definition expect_contiguous :: "tensor \<Rightarrow> tensor eff" where
  "expect_contiguous t =
     (if is_contiguous t then ret t
      else andThen (emit (Alloc_contiguous_copy (sizes t)))
             (\<lambda>_. ret (Tensor_impl (sizes t) Contiguous (val t))))"

definition expect_contiguous_opt :: "Tensor \<Rightarrow> Tensor eff" where
  "expect_contiguous_opt T =
     (case T of
        Undefined \<Rightarrow> ret Undefined
      | Defined t \<Rightarrow> andThen (expect_contiguous t) (\<lambda>c. ret (Defined c)))"

text \<open>
  Modelled from the spec: \<open>at::empty(size, options)\<close> (section 4.3, step 3) allocates a
  fresh contiguous buffer and does not initialise it.
\<close>

definition at_empty :: "int list \<Rightarrow> tensor eff" where
  "at_empty shape = andThen (emit (Alloc_empty shape))
                      (\<lambda>_. ret (Tensor_impl shape Contiguous Uninitialized))"

text \<open>
  Modelled from the spec: section 4.4, steps 3 and 4, allocate a gradient buffer shaped
  like a parameter, uninitialised or filled with zeros. The specification is silent on
  the gradient of an absent scale or bias being requested; the tensor library raises when
  the shape, options or data of the undefined tensor are read, and so does the model.
\<close>

definition deref :: "Tensor \<Rightarrow> tensor eff" where
  "deref T = (case T of Undefined \<Rightarrow> throw UndefinedTensor | Defined t \<Rightarrow> ret t)"

text \<open>
  \<open>at::native::empty_like\<close> and \<open>at::native::zeros_like\<close> with the contiguous memory
  format: a fresh buffer of the argument's shape. Both read the options of their
  argument.
\<close>

definition empty_like :: "Tensor \<Rightarrow> tensor eff" where
  "empty_like T =
     andThen (deref T) (\<lambda>t.
     andThen (emit (Alloc_empty (sizes t))) (\<lambda>_.
     ret (Tensor_impl (sizes t) Contiguous Uninitialized)))"

definition zeros_like :: "Tensor \<Rightarrow> tensor eff" where
  "zeros_like T =
     andThen (deref T) (\<lambda>t.
     andThen (emit (Alloc_zeros (sizes t))) (\<lambda>_.
     ret (Tensor_impl (sizes t) Contiguous Zeros)))"

text \<open>Storing a fresh tensor in a \<open>Tensor\<close> variable that was undefined so far.\<close>

definition assigned :: "tensor eff \<Rightarrow> Tensor eff" where
  "assigned m = andThen m (\<lambda>t. ret (Defined t))"

text \<open>
  Modelled from the spec: \<open>Tensor::view\<close> is missing from the sources. Section 4.2 makes it
  a metadata-only reshape that needs the element count to match; a dimension given as
  \<open>-1\<close> is inferred as the total element count divided by the product of the other
  dimensions, and is undefined when that product is zero. The contents are shared.
\<close>

definition infer_size :: "int list \<Rightarrow> int \<Rightarrow> error + int list" where
  "infer_size shape n =
     (let newsize = prod_list (filter (\<lambda>d. d \<noteq> - 1) shape);
          inferred = length (filter (\<lambda>d. d = - 1) shape)
      in if list_ex (\<lambda>d. d < - 1) shape \<or> 1 < inferred then Inl InvalidView
         else if inferred = 0 then (if n = newsize then Inr shape else Inl InvalidView)
         else if 0 < newsize \<and> n mod newsize = 0
              then Inr (map (\<lambda>d. if d = - 1 then n div newsize else d) shape)
              else Inl InvalidView)"

definition admits_view :: "tensor \<Rightarrow> int list \<Rightarrow> bool" where
  "admits_view t shape = (case layout t of Contiguous \<Rightarrow> True | Strided ok \<Rightarrow> ok shape)"

definition view :: "tensor \<Rightarrow> int list \<Rightarrow> tensor eff" where
  "view t shape =
     andThen (emit (Call_view (sizes t) shape)) (\<lambda>_.
       case infer_size shape (numel t) of
         Inl e \<Rightarrow> throw e
       | Inr s \<Rightarrow> if admits_view t s then ret (Tensor_impl s (layout t) (val t))
                  else throw InvalidView)"

text \<open>
  Modelled from the spec: the elementwise operators of section 4.5, step 4. They
  broadcast their operands, aligning shapes at the last dimension (section 4.2), and the
  result is a fresh tensor. \<open>addcmul self t1 t2 value\<close> is
  \<open>self + value * t1 * t2\<close> in one pass.
\<close>

fun broadcast_rev :: "int list \<Rightarrow> int list \<Rightarrow> int list option" where
  "broadcast_rev [] ys = Some ys"
| "broadcast_rev xs [] = Some xs"
| "broadcast_rev (x # xs) (y # ys) =
     (if x = y \<or> x = 1 \<or> y = 1
      then map_option (\<lambda>r. (if x = 1 then y else x) # r) (broadcast_rev xs ys)
      else None)"

definition broadcast :: "int list \<Rightarrow> int list \<Rightarrow> int list option" where
  "broadcast a b = map_option rev (broadcast_rev (rev a) (rev b))"

definition elementwise :: "int list option \<Rightarrow> val \<Rightarrow> tensor eff" where
  "elementwise shape v =
     (case shape of
        None \<Rightarrow> throw NotBroadcastable
      | Some s \<Rightarrow> andThen (emit (Alloc_result s)) (\<lambda>_. ret (Tensor_impl s Contiguous v)))"

definition tensor_mul :: "tensor \<Rightarrow> Tensor \<Rightarrow> tensor eff" where
  "tensor_mul self other' =
     andThen (deref other') (\<lambda>other.
     elementwise (broadcast (sizes self) (sizes other)) (Mul self other))"

definition tensor_add :: "tensor \<Rightarrow> Tensor \<Rightarrow> tensor eff" where
  "tensor_add self other' =
     andThen (deref other') (\<lambda>other.
     elementwise (broadcast (sizes self) (sizes other)) (Add self other))"

definition addcmul :: "Tensor \<Rightarrow> tensor \<Rightarrow> Tensor \<Rightarrow> int \<Rightarrow> tensor eff" where
  "addcmul self' tensor1 tensor2' v =
     andThen (deref self') (\<lambda>self.
     andThen (deref tensor2') (\<lambda>tensor2.
     elementwise
       (case broadcast (sizes self) (sizes tensor1) of
          None \<Rightarrow> None
        | Some s \<Rightarrow> broadcast s (sizes tensor2))
       (Addcmul self tensor1 tensor2 v)))"

subsection \<open>Validation and kernels\<close>

text \<open>
  Modelled from the spec: \<open>_check_layer_norm_inputs\<close> is declared in a header that is
  missing from the sources. Section 4.1: the normalized shape must be a trailing suffix of
  the input shape, a scale or bias that is present must have exactly the normalized shape,
  and the only error is \<open>InvalidShape\<close>; then \<open>axis\<close> is the rank of the input minus the
  length of the normalized shape, \<open>M\<close> the product of the sizes before \<open>axis\<close> and
  \<open>N\<close> the product of those from \<open>axis\<close> on. It has no side effects.
\<close>

definition has_shape :: "Tensor \<Rightarrow> int list \<Rightarrow> bool" where
  "has_shape T shape = (case T of Undefined \<Rightarrow> True | Defined t \<Rightarrow> sizes t = shape)"

definition check_layer_norm_inputs ::
  "tensor \<Rightarrow> int list \<Rightarrow> Tensor \<Rightarrow> Tensor \<Rightarrow> error + int \<times> int" where
  "check_layer_norm_inputs input normalized_shape weight bias =
     (let input_shape = sizes input;
          input_ndim = length input_shape;
          normalized_ndim = length normalized_shape
      in if input_ndim < normalized_ndim
            \<or> drop (input_ndim - normalized_ndim) input_shape \<noteq> normalized_shape
         then Inl InvalidShape
         else if \<not> has_shape weight normalized_shape then Inl InvalidShape
         else if \<not> has_shape bias normalized_shape then Inl InvalidShape
         else let axis = input_ndim - normalized_ndim
              in Inr (prod_list (take axis input_shape), prod_list (drop axis input_shape)))"

text \<open>
  Modelled from the spec: the forward kernel behind the \<open>LayerNormKernel\<close> dispatch stub
  (section 6) fills \<open>output\<close>, \<open>mean\<close> and \<open>rstd\<close> in place and returns. The
  device tag, which only selects the implementation, is left out.
\<close>

definition fill :: "val \<Rightarrow> tensor \<Rightarrow> tensor" where
  "fill v t = Tensor_impl (sizes t) (layout t) v"

definition LayerNormKernel ::
  "tensor \<Rightarrow> Tensor \<Rightarrow> Tensor \<Rightarrow> int \<Rightarrow> int \<Rightarrow> double \<Rightarrow> tensor \<Rightarrow> tensor \<Rightarrow> tensor
     \<Rightarrow> (tensor \<times> tensor \<times> tensor) eff" where
  "LayerNormKernel input gamma beta M N eps out mean rstd =
     andThen (emit (Call_LayerNormKernel M N)) (\<lambda>_.
       ret (fill (LayerNormKernel_result 0 input gamma beta M N eps) out,
            fill (LayerNormKernel_result 1 input gamma beta M N eps) mean,
            fill (LayerNormKernel_result 2 input gamma beta M N eps) rstd))"

text \<open>
  Modelled from the spec: the backward kernel behind the \<open>LayerNormBackwardKernel\<close>
  dispatch stub (section 6) fills the buffers that are not absent, and only those.
\<close>

definition fill_opt :: "val \<Rightarrow> Tensor \<Rightarrow> Tensor" where
  "fill_opt v T = (case T of Undefined \<Rightarrow> Undefined | Defined t \<Rightarrow> Defined (fill v t))"

definition LayerNormBackwardKernel ::
  "tensor \<Rightarrow> tensor \<Rightarrow> tensor \<Rightarrow> tensor \<Rightarrow> Tensor \<Rightarrow> int \<Rightarrow> int
     \<Rightarrow> Tensor \<Rightarrow> Tensor \<Rightarrow> Tensor \<Rightarrow> (Tensor \<times> Tensor \<times> Tensor) eff" where
  "LayerNormBackwardKernel dY X mean rstd gamma M N dX dgamma dbeta =
     andThen
       (emit (Call_LayerNormBackwardKernel M N (defined dX) (defined dgamma) (defined dbeta)))
       (\<lambda>_.
         ret (fill_opt (LayerNormBackwardKernel_result 0 dY X mean rstd gamma M N) dX,
              fill_opt (LayerNormBackwardKernel_result 1 dY X mean rstd gamma M N) dgamma,
              fill_opt (LayerNormBackwardKernel_result 2 dY X mean rstd gamma M N) dbeta))"

text \<open>
  Modelled from the spec: the batch-normalization collaborator (sections 4.5 and 6) works
  on a three-dimensional input whose second dimension counts the channels; it returns a
  fresh output of the input's shape and a mean and an inverse standard deviation with one
  entry for each channel. An input without a channel dimension is refused.
\<close>

definition native_batch_norm ::
  "tensor \<Rightarrow> Tensor \<Rightarrow> Tensor \<Rightarrow> Tensor \<Rightarrow> Tensor \<Rightarrow> bool \<Rightarrow> double \<Rightarrow> double
     \<Rightarrow> (tensor \<times> tensor \<times> tensor) eff" where
  "native_batch_norm input weight bias running_mean running_var training momentum eps =
     (case sizes input of
        b # c # rest \<Rightarrow>
          andThen (emit (Call_native_batch_norm (sizes input))) (\<lambda>_.
            let r = (\<lambda>k. native_batch_norm_result k input weight bias running_mean
                           running_var training momentum eps)
            in ret (Tensor_impl (sizes input) Contiguous (r 0),
                    Tensor_impl [c] Contiguous (r 1),
                    Tensor_impl [c] Contiguous (r 2)))
      | _ \<Rightarrow> throw NoChannels)"

subsection \<open>The functions of \<open>layer_norm.cpp\<close>\<close>

text \<open>
  The two loops that build \<open>stat_shape\<close>: the first appends \<open>input_shape[idx]\<close> for
  \<open>idx\<close> in \<open>irange(axis)\<close>, the second appends \<open>1\<close> for each \<open>idx\<close> in
  \<open>irange(axis, input.dim())\<close>.
\<close>

definition stat_shape_of :: "int list \<Rightarrow> nat \<Rightarrow> nat \<Rightarrow> int list" where
  "stat_shape_of input_shape axis ndim =
     foldl (\<lambda>stat_shape idx. stat_shape @ [1])
       (foldl (\<lambda>stat_shape idx. stat_shape @ [input_shape ! idx]) [] [0..<axis])
       [axis..<ndim]"

text \<open>
  \<open>layer_norm_impl_out\<close> writes through its three reference parameters \<open>out\<close>,
  \<open>mean\<close>, \<open>rstd\<close>; the model returns their final values. \<open>axis\<close> is a
  \<open>size_t\<close> difference, a natural-number subtraction here: every caller has validated
  that the normalized shape is no longer than the input shape.
\<close>

definition layer_norm_impl_out ::
  "tensor \<Rightarrow> tensor \<Rightarrow> tensor \<Rightarrow> tensor \<Rightarrow> int list \<Rightarrow> Tensor \<Rightarrow> Tensor \<Rightarrow> double
     \<Rightarrow> int \<Rightarrow> int \<Rightarrow> (tensor \<times> tensor \<times> tensor) eff" where
  "layer_norm_impl_out out mean rstd input normalized_shape gamma beta eps M N =
     (if M \<le> 0 then ret (out, mean, rstd)
      else
        andThen (LayerNormKernel input gamma beta M N eps out mean rstd)
          (\<lambda>(out, mean, rstd).
        let input_shape = sizes input;
            axis = length input_shape - length normalized_shape;
            stat_shape = stat_shape_of input_shape axis (length input_shape)
        in
        andThen (view mean stat_shape) (\<lambda>mean.
        andThen (view rstd stat_shape) (\<lambda>rstd.
        ret (out, mean, rstd)))))"

definition layer_init ::
  "tensor \<Rightarrow> int list \<Rightarrow> Tensor option \<Rightarrow> Tensor option
     \<Rightarrow> (tensor \<times> int \<times> int \<times> Tensor \<times> Tensor \<times> tensor \<times> tensor) eff" where
  "layer_init input normalized_shape weight_opt bias_opt =
     (let weight = borrow_from_optional_tensor weight_opt;
          bias = borrow_from_optional_tensor bias_opt
      in
      andThen (expect_contiguous input) (\<lambda>X.
      andThen (lift (check_layer_norm_inputs input normalized_shape weight bias)) (\<lambda>(M, N).
      andThen (expect_contiguous_opt weight) (\<lambda>gamma.
      andThen (expect_contiguous_opt bias) (\<lambda>beta.
      andThen (at_empty [M]) (\<lambda>mean.
      andThen (at_empty [M]) (\<lambda>rstd.
      ret (X, M, N, gamma, beta, mean, rstd))))))))"

definition layer_norm_new_out ::
  "tensor \<Rightarrow> int list \<Rightarrow> Tensor option \<Rightarrow> Tensor option \<Rightarrow> double \<Rightarrow> tensor
     \<Rightarrow> tensor eff" where
  "layer_norm_new_out input normalized_shape weight_opt bias_opt eps out =
     andThen (layer_init input normalized_shape weight_opt bias_opt)
       (\<lambda>(X, M, N, gamma, beta, mean, rstd).
     andThen (layer_norm_impl_out out mean rstd X normalized_shape gamma beta eps M N)
       (\<lambda>(out, mean, rstd).
     ret out))"

text \<open>\<open>_layer_norm\<close>, the direct forward path (an identifier cannot start with an underscore).\<close>

definition u_layer_norm ::
  "tensor \<Rightarrow> int list \<Rightarrow> Tensor option \<Rightarrow> Tensor option \<Rightarrow> double
     \<Rightarrow> (tensor \<times> tensor \<times> tensor) eff" where
  "u_layer_norm input normalized_shape weight_opt bias_opt eps =
     andThen (layer_init input normalized_shape weight_opt bias_opt)
       (\<lambda>(X, M, N, gamma, beta, mean, rstd).
     andThen (empty_like (Defined X)) (\<lambda>Y.
     andThen (layer_norm_impl_out Y mean rstd X normalized_shape gamma beta eps M N)
       (\<lambda>(Y, mean, rstd).
     ret (Y, mean, rstd))))"

text \<open>
  \<open>at::native_layer_norm\<close> goes through the dispatcher, which is not part of the file:
  the implementation it selects is a parameter of the two public entry points.
\<close>

type_synonym native_layer_norm_fn =
  "tensor \<Rightarrow> int list \<Rightarrow> Tensor option \<Rightarrow> Tensor option \<Rightarrow> double
     \<Rightarrow> (tensor \<times> tensor \<times> tensor) eff"

definition get0 :: "'a \<times> 'b \<times> 'c \<Rightarrow> 'a" where
  "get0 t = fst t"

definition layer_norm_new ::
  "native_layer_norm_fn \<Rightarrow> tensor \<Rightarrow> int list \<Rightarrow> Tensor option \<Rightarrow> Tensor option \<Rightarrow> double
     \<Rightarrow> tensor eff" where
  "layer_norm_new native_layer_norm input normalized_shape weight_opt bias_opt eps =
     andThen (native_layer_norm input normalized_shape weight_opt bias_opt eps)
       (\<lambda>t. ret (get0 t))"

definition layer_norm ::
  "native_layer_norm_fn \<Rightarrow> tensor \<Rightarrow> int list \<Rightarrow> Tensor option \<Rightarrow> Tensor option \<Rightarrow> double
     \<Rightarrow> bool \<Rightarrow> tensor eff" where
  "layer_norm native_layer_norm input normalized_shape weight_opt bias_opt eps cudnn_enable =
     andThen (native_layer_norm input normalized_shape weight_opt bias_opt eps)
       (\<lambda>t. ret (get0 t))"

text \<open>The gradient mask is a \<open>std::array<bool, 3>\<close>, a triple here.\<close>

definition mask0 :: "bool \<times> bool \<times> bool \<Rightarrow> bool" where
  "mask0 m = fst m"

definition mask1 :: "bool \<times> bool \<times> bool \<Rightarrow> bool" where
  "mask1 m = fst (snd m)"

definition mask2 :: "bool \<times> bool \<times> bool \<Rightarrow> bool" where
  "mask2 m = snd (snd m)"

definition layer_norm_backward ::
  "tensor \<Rightarrow> tensor \<Rightarrow> int list \<Rightarrow> tensor \<Rightarrow> tensor \<Rightarrow> Tensor option \<Rightarrow> Tensor option
     \<Rightarrow> bool \<times> bool \<times> bool \<Rightarrow> (Tensor \<times> Tensor \<times> Tensor) eff" where
  "layer_norm_backward dY input normalized_shape mean rstd weight_opt bias_opt
       grad_input_mask =
     (let weight = borrow_from_optional_tensor weight_opt;
          bias = borrow_from_optional_tensor bias_opt
      in
      andThen (lift (check_layer_norm_inputs input normalized_shape weight bias)) (\<lambda>(M, N).
      andThen (expect_contiguous input) (\<lambda>X.
      andThen (expect_contiguous_opt weight) (\<lambda>gamma.
      andThen (expect_contiguous_opt bias) (\<lambda>beta.
      andThen (if mask0 grad_input_mask then assigned (empty_like (Defined X))
               else ret Undefined)
        (\<lambda>dX.
      andThen (if mask1 grad_input_mask
               then assigned (if M > 0 then empty_like gamma else zeros_like gamma)
               else ret Undefined)
        (\<lambda>dgamma.
      andThen (if mask2 grad_input_mask
               then assigned (if M > 0 then empty_like beta else zeros_like beta)
               else ret Undefined)
        (\<lambda>dbeta.
      andThen (if M > 0
               then LayerNormBackwardKernel dY X mean rstd gamma M N dX dgamma dbeta
               else ret (dX, dgamma, dbeta))
        (\<lambda>(dX, dgamma, dbeta).
      ret (dX, dgamma, dbeta))))))))))"

text \<open>
  \<open>math_native_layer_norm\<close>, the path through batch normalization. The view is taken of
  \<open>input\<close> itself, not of the contiguous \<open>X\<close>.
\<close>

definition math_native_layer_norm ::
  "tensor \<Rightarrow> int list \<Rightarrow> Tensor option \<Rightarrow> Tensor option \<Rightarrow> double
     \<Rightarrow> (tensor \<times> tensor \<times> tensor) eff" where
  "math_native_layer_norm input normalized_shape weight_opt bias_opt eps =
     (let weight = borrow_from_optional_tensor weight_opt;
          bias = borrow_from_optional_tensor bias_opt
      in
      andThen (lift (check_layer_norm_inputs input normalized_shape weight bias)) (\<lambda>(M, N).
      andThen (expect_contiguous input) (\<lambda>X.
      andThen (expect_contiguous_opt weight) (\<lambda>gamma.
      let input_shape = sizes input;
          input_ndim = length input_shape;
          normalized_ndim = length normalized_shape;
          axis = input_ndim - normalized_ndim
      in
      andThen (view input [1, M, - 1]) (\<lambda>input_reshaped.
      andThen (native_batch_norm input_reshaped Undefined Undefined Undefined Undefined
                 True 0 eps)
        (\<lambda>outputs.
      andThen (view (fst outputs) input_shape) (\<lambda>out.
      andThen (if defined weight \<and> defined bias then addcmul bias out weight 1
               else if defined weight then tensor_mul out weight
               else if defined bias then tensor_add out bias
               else ret out)
        (\<lambda>out.
      let mean = fst (snd outputs);
          rstd = snd (snd outputs);
          stat_shape = stat_shape_of input_shape axis input_ndim
      in
      andThen (view mean stat_shape) (\<lambda>mean.
      andThen (view rstd stat_shape) (\<lambda>rstd.
      ret (out, mean, rstd)))))))))))"

subsection \<open>Notions used to state the properties\<close>

text \<open>
  What \<open>expect_contiguous\<close> hands back and what it allocates: the tensor itself and
  nothing when it is contiguous, a contiguous copy and one allocation otherwise.
\<close>

definition contiguous_form :: "tensor \<Rightarrow> tensor" where
  "contiguous_form t = Tensor_impl (sizes t) Contiguous (val t)"

definition contiguous_form_opt :: "Tensor \<Rightarrow> Tensor" where
  "contiguous_form_opt T =
     (case T of Undefined \<Rightarrow> Undefined | Defined t \<Rightarrow> Defined (contiguous_form t))"

definition copy_events :: "tensor \<Rightarrow> event list" where
  "copy_events t = (if is_contiguous t then [] else [Alloc_contiguous_copy (sizes t)])"

definition copy_events_opt :: "Tensor \<Rightarrow> event list" where
  "copy_events_opt T = (case T of Undefined \<Rightarrow> [] | Defined t \<Rightarrow> copy_events t)"

text \<open>
  The shape the specification gives the statistics (section 4.2):
  \<open>input.shape[0:axis] + [1] * (input.rank - axis)\<close>.
\<close>

definition broadcast_stat_shape :: "int list \<Rightarrow> int list \<Rightarrow> int list" where
  "broadcast_stat_shape input_shape normalized_shape =
     (let axis = length input_shape - length normalized_shape
      in take axis input_shape @ replicate (length input_shape - axis) 1)"

text \<open>The shapes of the mean and the rstd a forward call returns, if it returns.\<close>

definition returned_stat_shapes ::
  "(tensor \<times> tensor \<times> tensor) eff \<Rightarrow> (int list \<times> int list) option" where
  "returned_stat_shapes r =
     (case fst r of
        Inl e \<Rightarrow> None
      | Inr (out, mean, rstd) \<Rightarrow> Some (sizes mean, sizes rstd))"

text \<open>A fresh contiguous buffer shaped like a tensor, with the given contents.\<close>

definition fresh_like :: "val \<Rightarrow> Tensor \<Rightarrow> Tensor" where
  "fresh_like v T =
     (case T of Undefined \<Rightarrow> Undefined | Defined t \<Rightarrow> Defined (Tensor_impl (sizes t) Contiguous v))"

text \<open>
  The affine step as the specification words it (section 4.5, step 4): with scale and bias
  both present \<open>bias + out * scale\<close> as one fused operation, with only the scale
  \<open>out * scale\<close>, with only the bias \<open>out + bias\<close>, with neither the identity.
\<close>

definition affine_spec :: "Tensor \<Rightarrow> Tensor \<Rightarrow> tensor \<Rightarrow> val" where
  "affine_spec scale bias out =
     (case (scale, bias) of
        (Defined s, Defined b) \<Rightarrow> Addcmul b out s 1
      | (Defined s, Undefined) \<Rightarrow> Mul out s
      | (Undefined, Defined b) \<Rightarrow> Add out b
      | (Undefined, Undefined) \<Rightarrow> val out)"

text \<open>
  What the backward orchestrator stores in a gradient variable and what it allocates for
  it: nothing when the gradient is not requested, otherwise a fresh buffer shaped like the
  parameter, zero-filled or not.
\<close>

definition grad_buffer :: "bool \<Rightarrow> bool \<Rightarrow> Tensor \<Rightarrow> Tensor" where
  "grad_buffer requested zero_fill T =
     (if requested then fresh_like (if zero_fill then Zeros else Uninitialized) T
      else Undefined)"

definition grad_alloc :: "bool \<Rightarrow> bool \<Rightarrow> Tensor \<Rightarrow> event list" where
  "grad_alloc requested zero_fill T =
     (case T of
        Undefined \<Rightarrow> []
      | Defined t \<Rightarrow>
          if requested
          then [if zero_fill then Alloc_zeros (sizes t) else Alloc_empty (sizes t)]
          else [])"

text \<open>An event of an elementwise operator: the allocation of its result.\<close>

definition is_result :: "event \<Rightarrow> bool" where
  "is_result ev = (case ev of Alloc_result s \<Rightarrow> True | _ \<Rightarrow> False)"

text \<open>
  The normalized output of the fallback path before the affine step: the first output of
  batch normalization over the input viewed as \<open>{1, M, N}\<close>, viewed in the shape of
  the input again.
\<close>

definition normalized_view :: "tensor \<Rightarrow> int \<Rightarrow> int \<Rightarrow> double \<Rightarrow> tensor" where
  "normalized_view input M N eps =
     Tensor_impl (sizes input) Contiguous
       (native_batch_norm_result 0 (Tensor_impl [1, M, N] (layout input) (val input))
          Undefined Undefined Undefined Undefined True 0 eps)"

text \<open>What a backward call returns, read as which of its three outputs are defined.\<close>

definition returned_definedness ::
  "(Tensor \<times> Tensor \<times> Tensor) eff \<Rightarrow> (bool \<times> bool \<times> bool) option" where
  "returned_definedness r =
     (case fst r of
        Inl e \<Rightarrow> None
      | Inr (dX, dgamma, dbeta) \<Rightarrow> Some (defined dX, defined dgamma, defined dbeta))"

subsection \<open>Values over the real numbers\<close>

















section \<open>Auxiliary lemmas\<close>

subsection \<open>Effects\<close>

lemma andThen_Inr: "andThen (Inr x, tr) f = (fst (f x), tr @ snd (f x))"
  by (simp add: andThen_def split: prod.splits)

lemma andThen_Inl: "andThen (Inl e, tr) f = (Inl e, tr)"
  by (simp add: andThen_def)

lemmas eff_simps = andThen_Inr andThen_Inl ret_def throw_def emit_def lift_def

subsection \<open>Shapes\<close>

lemma foldl_append_nth:
  "n \<le> length s \<Longrightarrow>
   foldl (\<lambda>stat_shape idx. stat_shape @ [s ! idx]) acc [0..<n] = acc @ take n s"
  by (induction n) (simp_all add: take_Suc_conv_app_nth)

lemma foldl_append_one:
  "foldl (\<lambda>stat_shape idx. stat_shape @ [1::int]) acc xs = acc @ replicate (length xs) 1"
  by (induction xs arbitrary: acc) (simp_all add: replicate_app_Cons_same)

lemma stat_shape_of_eq:
  "length ns \<le> length s \<Longrightarrow>
   stat_shape_of s (length s - length ns) (length s) = broadcast_stat_shape s ns"
  by (simp add: stat_shape_of_def broadcast_stat_shape_def Let_def foldl_append_nth
        foldl_append_one)

lemma prod_list_replicate_one: "prod_list (replicate k (1::int)) = 1"
  by (induction k) simp_all

lemma prod_list_nonneg: "list_all (\<lambda>d. 0 \<le> d) xs \<Longrightarrow> 0 \<le> prod_list (xs::int list)"
  by (induction xs) simp_all

lemma list_all_take: "list_all P xs \<Longrightarrow> list_all P (take n xs)"
  by (metis append_take_drop_id list_all_append)

lemma broadcast_stat_shape_nonneg:
  "list_all (\<lambda>d. 0 \<le> d) s \<Longrightarrow> list_all (\<lambda>d. 0 \<le> d) (broadcast_stat_shape s ns)"
  by (auto simp: broadcast_stat_shape_def Let_def list_all_iff dest: in_set_takeD)

lemma prod_list_broadcast_stat_shape:
  "prod_list (broadcast_stat_shape s ns) = prod_list (take (length s - length ns) s)"
  by (simp add: broadcast_stat_shape_def Let_def prod_list_replicate_one)

subsection \<open>Views\<close>

lemma filter_no_minus_one:
  "list_all (\<lambda>d. 0 \<le> d) xs \<Longrightarrow> filter (\<lambda>d. d \<noteq> - 1) xs = (xs::int list)"
  by (induction xs) auto

lemma filter_minus_one:
  "list_all (\<lambda>d. 0 \<le> d) xs \<Longrightarrow> filter (\<lambda>d. d = - 1) xs = ([]::int list)"
  by (induction xs) auto

lemma no_negative_dim:
  "list_all (\<lambda>d. 0 \<le> d) xs \<Longrightarrow> \<not> list_ex (\<lambda>d. d < - 1) (xs::int list)"
  by (induction xs) auto

lemma infer_size_exact:
  "list_all (\<lambda>d. 0 \<le> d) shape \<Longrightarrow> prod_list shape = n \<Longrightarrow> infer_size shape n = Inr shape"
  by (simp add: infer_size_def filter_no_minus_one filter_minus_one no_negative_dim)

lemma view_fresh:
  "list_all (\<lambda>d. 0 \<le> d) shape \<Longrightarrow> prod_list shape = prod_list s \<Longrightarrow>
   view (Tensor_impl s Contiguous v) shape =
     (Inr (Tensor_impl shape Contiguous v), [Call_view s shape])"
  by (simp add: view_def eff_simps infer_size_exact numel_def admits_view_def)

subsection \<open>Validation\<close>

lemma check_layer_norm_inputs_Inr:
  assumes "check_layer_norm_inputs input ns weight bias = Inr (M, N)"
  shows "length ns \<le> length (sizes input)"
    and "drop (length (sizes input) - length ns) (sizes input) = ns"
    and "has_shape weight ns" and "has_shape bias ns"
    and "M = prod_list (take (length (sizes input) - length ns) (sizes input))"
    and "N = prod_list ns"
  using assms by (auto simp: check_layer_norm_inputs_def Let_def split: if_splits)

lemma check_layer_norm_inputs_error:
  "check_layer_norm_inputs input ns weight bias = Inl e \<Longrightarrow> e = InvalidShape"
  by (auto simp: check_layer_norm_inputs_def Let_def split: if_splits)

lemma M_times_N:
  assumes "check_layer_norm_inputs input ns weight bias = Inr (M, N)"
  shows "M * N = numel input"
proof -
  let ?a = "length (sizes input) - length ns"
  have "prod_list (take ?a (sizes input) @ drop ?a (sizes input)) = numel input"
    by (simp add: numel_def)
  then show ?thesis
    using check_layer_norm_inputs_Inr(2,5,6)[OF assms] by (simp del: append_take_drop_id)
qed

lemma M_nonneg:
  assumes "check_layer_norm_inputs input ns weight bias = Inr (M, N)" and "wf_tensor input"
  shows "0 \<le> M"
  using check_layer_norm_inputs_Inr(5)[OF assms(1)] assms(2)
  by (simp add: wf_tensor_def prod_list_nonneg list_all_take)

subsection \<open>Allocation\<close>

lemma contiguous_form_id: "is_contiguous t \<Longrightarrow> contiguous_form t = t"
  by (cases t) (simp add: contiguous_form_def is_contiguous_def split: layout.splits)

lemma expect_contiguous_eq:
  "expect_contiguous t = (Inr (contiguous_form t), copy_events t)"
  by (simp add: expect_contiguous_def copy_events_def eff_simps contiguous_form_id)
     (simp add: contiguous_form_def)

lemma expect_contiguous_opt_eq:
  "expect_contiguous_opt T = (Inr (contiguous_form_opt T), copy_events_opt T)"
  by (cases T)
     (simp_all add: expect_contiguous_opt_def expect_contiguous_eq contiguous_form_opt_def
        copy_events_opt_def eff_simps)

lemma empty_like_Defined:
  "empty_like (Defined t) =
     (Inr (Tensor_impl (sizes t) Contiguous Uninitialized), [Alloc_empty (sizes t)])"
  by (simp add: empty_like_def deref_def eff_simps)

lemma zeros_like_Defined:
  "zeros_like (Defined t) =
     (Inr (Tensor_impl (sizes t) Contiguous Zeros), [Alloc_zeros (sizes t)])"
  by (simp add: zeros_like_def deref_def eff_simps)

lemma empty_like_Undefined: "empty_like Undefined = (Inl UndefinedTensor, [])"
  by (simp add: empty_like_def deref_def eff_simps)

lemma zeros_like_Undefined: "zeros_like Undefined = (Inl UndefinedTensor, [])"
  by (simp add: zeros_like_def deref_def eff_simps)

lemma copy_events_no_kernel:
  "\<not> list_ex is_fwd_kernel (copy_events t)" "\<not> list_ex is_bwd_kernel (copy_events t)"
  "\<not> list_ex is_batch_norm (copy_events t)"
  by (simp_all add: copy_events_def is_fwd_kernel_def is_bwd_kernel_def is_batch_norm_def)

lemma copy_events_opt_no_kernel:
  "\<not> list_ex is_fwd_kernel (copy_events_opt T)" "\<not> list_ex is_bwd_kernel (copy_events_opt T)"
  "\<not> list_ex is_batch_norm (copy_events_opt T)"
  by (cases T; simp add: copy_events_opt_def copy_events_no_kernel)+

subsection \<open>The forward path\<close>

lemma layer_init_valid:
  assumes "check_layer_norm_inputs input ns (borrow_from_optional_tensor wo)
             (borrow_from_optional_tensor bo) = Inr (M, N)"
  shows "layer_init input ns wo bo =
           (Inr (contiguous_form input, M, N,
                 contiguous_form_opt (borrow_from_optional_tensor wo),
                 contiguous_form_opt (borrow_from_optional_tensor bo),
                 Tensor_impl [M] Contiguous Uninitialized,
                 Tensor_impl [M] Contiguous Uninitialized),
            copy_events input @ copy_events_opt (borrow_from_optional_tensor wo)
              @ copy_events_opt (borrow_from_optional_tensor bo)
              @ [Alloc_empty [M], Alloc_empty [M]])"
  by (simp add: layer_init_def Let_def assms expect_contiguous_eq expect_contiguous_opt_eq
        at_empty_def eff_simps)

lemma layer_init_invalid:
  assumes "check_layer_norm_inputs input ns (borrow_from_optional_tensor wo)
             (borrow_from_optional_tensor bo) = Inl e"
  shows "layer_init input ns wo bo = (Inl e, copy_events input)"
  by (simp add: layer_init_def Let_def assms expect_contiguous_eq eff_simps)

lemma layer_norm_impl_out_degenerate:
  "M \<le> 0 \<Longrightarrow>
   layer_norm_impl_out out mean rstd input ns gamma beta eps M N = (Inr (out, mean, rstd), [])"
  by (simp add: layer_norm_impl_out_def ret_def)

lemma layer_norm_impl_out_kernel:
  assumes "0 < M" and "length ns \<le> length (sizes input)"
    and "list_all (\<lambda>d. 0 \<le> d) (sizes input)"
    and "M = prod_list (take (length (sizes input) - length ns) (sizes input))"
  shows "layer_norm_impl_out out (Tensor_impl [M] Contiguous v1) (Tensor_impl [M] Contiguous v2)
           input ns gamma beta eps M N =
         (Inr (fill (LayerNormKernel_result 0 input gamma beta M N eps) out,
               Tensor_impl (broadcast_stat_shape (sizes input) ns) Contiguous
                 (LayerNormKernel_result 1 input gamma beta M N eps),
               Tensor_impl (broadcast_stat_shape (sizes input) ns) Contiguous
                 (LayerNormKernel_result 2 input gamma beta M N eps)),
          [Call_LayerNormKernel M N,
           Call_view [M] (broadcast_stat_shape (sizes input) ns),
           Call_view [M] (broadcast_stat_shape (sizes input) ns)])"
proof -
  let ?s = "broadcast_stat_shape (sizes input) ns"
  have s: "stat_shape_of (sizes input) (length (sizes input) - length ns)
             (length (sizes input)) = ?s"
    using assms(2) by (rule stat_shape_of_eq)
  have wf: "list_all (\<lambda>d. 0 \<le> d) ?s"
    using assms(3) by (rule broadcast_stat_shape_nonneg)
  have p: "prod_list ?s = prod_list [M]"
    using assms(4) by (simp add: prod_list_broadcast_stat_shape)
  show ?thesis
    using assms(1)
    by (simp add: layer_norm_impl_out_def LayerNormKernel_def Let_def s fill_def
          view_fresh[OF wf p] eff_simps)
qed

lemma u_layer_norm_valid:
  assumes wf: "wf_tensor input"
    and chk: "check_layer_norm_inputs input ns (borrow_from_optional_tensor wo)
             (borrow_from_optional_tensor bo) = Inr (M, N)"
  shows "u_layer_norm input ns wo bo eps =
     (let X = contiguous_form input;
          gamma = contiguous_form_opt (borrow_from_optional_tensor wo);
          beta = contiguous_form_opt (borrow_from_optional_tensor bo);
          allocs = copy_events input @ copy_events_opt (borrow_from_optional_tensor wo)
              @ copy_events_opt (borrow_from_optional_tensor bo)
              @ [Alloc_empty [M], Alloc_empty [M], Alloc_empty (sizes input)];
          stat_shape = broadcast_stat_shape (sizes input) ns
      in if M \<le> 0
         then (Inr (Tensor_impl (sizes input) Contiguous Uninitialized,
                    Tensor_impl [M] Contiguous Uninitialized,
                    Tensor_impl [M] Contiguous Uninitialized), allocs)
         else (Inr (Tensor_impl (sizes input) Contiguous
                      (LayerNormKernel_result 0 X gamma beta M N eps),
                    Tensor_impl stat_shape Contiguous
                      (LayerNormKernel_result 1 X gamma beta M N eps),
                    Tensor_impl stat_shape Contiguous
                      (LayerNormKernel_result 2 X gamma beta M N eps)),
               allocs @ [Call_LayerNormKernel M N, Call_view [M] stat_shape,
                         Call_view [M] stat_shape]))"
proof (cases "M \<le> 0")
  case True
  then show ?thesis
    by (simp add: u_layer_norm_def layer_init_valid[OF chk] empty_like_Defined
          layer_norm_impl_out_degenerate eff_simps contiguous_form_def Let_def)
next
  case False
  have s: "sizes (contiguous_form input) = sizes input"
    by (simp add: contiguous_form_def)
  have k: "layer_norm_impl_out out (Tensor_impl [M] Contiguous v1)
             (Tensor_impl [M] Contiguous v2) (contiguous_form input) ns gamma beta eps M N =
         (Inr (fill (LayerNormKernel_result 0 (contiguous_form input) gamma beta M N eps) out,
               Tensor_impl (broadcast_stat_shape (sizes input) ns) Contiguous
                 (LayerNormKernel_result 1 (contiguous_form input) gamma beta M N eps),
               Tensor_impl (broadcast_stat_shape (sizes input) ns) Contiguous
                 (LayerNormKernel_result 2 (contiguous_form input) gamma beta M N eps)),
          [Call_LayerNormKernel M N,
           Call_view [M] (broadcast_stat_shape (sizes input) ns),
           Call_view [M] (broadcast_stat_shape (sizes input) ns)])" for out v1 v2 gamma beta
    using layer_norm_impl_out_kernel[of M ns "contiguous_form input" out v1 v2 gamma beta eps N]
      False wf check_layer_norm_inputs_Inr(1,5)[OF chk]
    by (simp add: s wf_tensor_def)
  from False show ?thesis
    by (simp add: u_layer_norm_def layer_init_valid[OF chk] empty_like_Defined k
          eff_simps fill_def s Let_def)
qed

lemma u_layer_norm_invalid:
  assumes "check_layer_norm_inputs input ns (borrow_from_optional_tensor wo)
             (borrow_from_optional_tensor bo) = Inl e"
  shows "u_layer_norm input ns wo bo eps = (Inl InvalidShape, copy_events input)"
  using check_layer_norm_inputs_error[OF assms]
  by (simp add: u_layer_norm_def layer_init_invalid[OF assms] eff_simps)

subsection \<open>The backward path\<close>

lemma grad_step:
  "(if requested then assigned (if 0 < (M::int) then empty_like T else zeros_like T)
    else ret Undefined) =
     (if requested \<and> \<not> defined T then (Inl UndefinedTensor, [])
      else (Inr (grad_buffer requested (M \<le> 0) T), grad_alloc requested (M \<le> 0) T))"
  by (cases T)
     (auto simp: assigned_def empty_like_Defined zeros_like_Defined empty_like_Undefined
        zeros_like_Undefined grad_buffer_def grad_alloc_def fresh_like_def eff_simps)

lemma defined_contiguous_form_opt: "defined (contiguous_form_opt T) = defined T"
  by (cases T) (simp_all add: contiguous_form_opt_def)

lemma grad_buffer_contiguous_form_opt:
  "grad_buffer r M (contiguous_form_opt T) = grad_buffer r M T"
  by (cases T) (simp_all add: contiguous_form_opt_def grad_buffer_def fresh_like_def contiguous_form_def)

lemma grad_alloc_contiguous_form_opt:
  "grad_alloc r M (contiguous_form_opt T) = grad_alloc r M T"
  by (cases T) (simp_all add: contiguous_form_opt_def grad_alloc_def contiguous_form_def)

lemma defined_grad_buffer: "r \<longrightarrow> defined T \<Longrightarrow> defined (grad_buffer r M T) = r"
  by (cases T) (simp_all add: grad_buffer_def fresh_like_def)

lemma layer_norm_backward_invalid:
  assumes "check_layer_norm_inputs input ns (borrow_from_optional_tensor wo)
             (borrow_from_optional_tensor bo) = Inl e"
  shows "layer_norm_backward dY input ns mean rstd wo bo m = (Inl e, [])"
  by (simp add: layer_norm_backward_def Let_def assms eff_simps)

lemma layer_norm_backward_valid:
  assumes "check_layer_norm_inputs input ns (borrow_from_optional_tensor wo)
             (borrow_from_optional_tensor bo) = Inr (M, N)"
  shows "layer_norm_backward dY input ns mean rstd wo bo m =
     (let weight = borrow_from_optional_tensor wo;
          bias = borrow_from_optional_tensor bo;
          X = contiguous_form input;
          gamma = contiguous_form_opt weight;
          copies = copy_events input @ copy_events_opt weight @ copy_events_opt bias;
          dX = grad_buffer (mask0 m) False (Defined input);
          dgamma = grad_buffer (mask1 m) (M \<le> 0) weight;
          dbeta = grad_buffer (mask2 m) (M \<le> 0) bias;
          aX = grad_alloc (mask0 m) False (Defined input);
          agamma = grad_alloc (mask1 m) (M \<le> 0) weight;
          abeta = grad_alloc (mask2 m) (M \<le> 0) bias;
          r = (\<lambda>k. LayerNormBackwardKernel_result k dY X mean rstd gamma M N)
      in if mask1 m \<and> \<not> defined weight then (Inl UndefinedTensor, copies @ aX)
         else if mask2 m \<and> \<not> defined bias then (Inl UndefinedTensor, copies @ aX @ agamma)
         else if 0 < M
           then (Inr (fill_opt (r 0) dX, fill_opt (r 1) dgamma, fill_opt (r 2) dbeta),
                 copies @ aX @ agamma @ abeta
                   @ [Call_LayerNormBackwardKernel M N (mask0 m) (mask1 m) (mask2 m)])
           else (Inr (dX, dgamma, dbeta), copies @ aX @ agamma @ abeta))"
proof -
  have X: "(if mask0 m then assigned (empty_like (Defined (contiguous_form input)))
            else ret Undefined) =
           (Inr (grad_buffer (mask0 m) False (Defined input)),
            grad_alloc (mask0 m) False (Defined input))"
    by (simp add: assigned_def empty_like_Defined grad_buffer_def grad_alloc_def fresh_like_def
          eff_simps contiguous_form_def)
  show ?thesis
    by (simp add: layer_norm_backward_def Let_def assms expect_contiguous_eq
          expect_contiguous_opt_eq X grad_step defined_contiguous_form_opt
          grad_buffer_contiguous_form_opt grad_alloc_contiguous_form_opt
          LayerNormBackwardKernel_def defined_grad_buffer eff_simps)
qed

lemma grad_alloc_no_kernel:
  "filter is_bwd_kernel (grad_alloc r z T) = []"
  by (cases T) (simp_all add: grad_alloc_def is_bwd_kernel_def)

lemma grad_alloc_no_bwd_kernel:
  "\<not> list_ex is_bwd_kernel (grad_alloc r z T)"
  by (cases T) (simp_all add: grad_alloc_def is_bwd_kernel_def)

lemma copy_events_filter_bwd:
  "filter is_bwd_kernel (copy_events t) = []" "filter is_bwd_kernel (copy_events_opt T) = []"
  using copy_events_no_kernel(2)[of t] copy_events_opt_no_kernel(2)[of T]
  by (simp_all add: list_ex_iff filter_empty_conv)

subsection \<open>The path through batch normalization\<close>

lemma infer_size_batch:
  "infer_size [1, M, - 1] (M * N) = (if 0 < M then Inr [1, M, N] else Inl InvalidView)"
  by (auto simp: infer_size_def Let_def)

lemma view_batch:
  assumes "check_layer_norm_inputs input ns weight bias = Inr (M, N)"
  shows "view input [1, M, - 1] =
     (if 0 < M \<and> admits_view input [1, M, N]
      then Inr (Tensor_impl [1, M, N] (layout input) (val input))
      else Inl InvalidView,
      [Call_view (sizes input) [1, M, - 1]])"
  using infer_size_batch[of M N]
  by (simp add: view_def M_times_N[OF assms, symmetric] eff_simps)

lemma broadcast_rev_prefix:
  "broadcast_rev (p @ q) p = Some (p @ q)" "broadcast_rev p (p @ q) = Some (p @ q)"
proof (induction p)
  case Nil
  { case 1 show ?case by (cases q) simp_all }
  { case 2 show ?case by simp }
next
  case (Cons x p)
  { case 1 show ?case using Cons by simp }
  { case 2 show ?case using Cons by simp }
qed

lemma broadcast_suffix:
  assumes "length ns \<le> length s" and "drop (length s - length ns) s = ns"
  shows "broadcast s ns = Some s" and "broadcast ns s = Some s"
proof -
  have "s = take (length s - length ns) s @ ns"
    using assms(2) by (metis append_take_drop_id)
  then have r: "rev s = rev ns @ rev (take (length s - length ns) s)"
    by (metis rev_append)
  have "broadcast_rev (rev s) (rev ns) = Some (rev s)"
    using broadcast_rev_prefix(1)[of "rev ns" "rev (take (length s - length ns) s)"] r
    by simp
  then show "broadcast s ns = Some s"
    by (simp add: broadcast_def)
  have "broadcast_rev (rev ns) (rev s) = Some (rev s)"
    using broadcast_rev_prefix(2)[of "rev ns" "rev (take (length s - length ns) s)"] r
    by simp
  then show "broadcast ns s = Some s"
    by (simp add: broadcast_def)
qed

lemma affine_step:
  assumes "length ns \<le> length s" and "drop (length s - length ns) s = ns"
    and "has_shape weight ns" and "has_shape bias ns" and "sizes out = s"
  shows "(if defined weight \<and> defined bias then addcmul bias out weight 1
          else if defined weight then tensor_mul out weight
          else if defined bias then tensor_add out bias
          else ret out) =
         (if defined weight \<or> defined bias
          then (Inr (Tensor_impl s Contiguous (affine_spec weight bias out)), [Alloc_result s])
          else (Inr out, []))"
  using assms(3,4,5) broadcast_suffix[OF assms(1,2)]
  by (cases weight; cases bias)
     (simp_all add: addcmul_def tensor_mul_def tensor_add_def deref_def elementwise_def
        has_shape_def affine_spec_def eff_simps)

lemma math_native_layer_norm_invalid:
  assumes "check_layer_norm_inputs input ns (borrow_from_optional_tensor wo)
             (borrow_from_optional_tensor bo) = Inl e"
  shows "math_native_layer_norm input ns wo bo eps = (Inl e, [])"
  by (simp add: math_native_layer_norm_def Let_def assms eff_simps)

lemma math_native_layer_norm_valid:
  assumes wf: "wf_tensor input"
    and chk: "check_layer_norm_inputs input ns (borrow_from_optional_tensor wo)
             (borrow_from_optional_tensor bo) = Inr (M, N)"
  shows "math_native_layer_norm input ns wo bo eps =
     (let weight = borrow_from_optional_tensor wo;
          bias = borrow_from_optional_tensor bo;
          copies = copy_events input @ copy_events_opt weight;
          reshaped = Tensor_impl [1, M, N] (layout input) (val input);
          stat_shape = broadcast_stat_shape (sizes input) ns;
          r = (\<lambda>k. native_batch_norm_result k reshaped Undefined Undefined Undefined Undefined
                      True 0 eps)
      in if 0 < M \<and> admits_view input [1, M, N]
         then (Inr (Tensor_impl (sizes input) Contiguous
                      (affine_spec weight bias (normalized_view input M N eps)),
                    Tensor_impl stat_shape Contiguous (r 1),
                    Tensor_impl stat_shape Contiguous (r 2)),
               copies @ [Call_view (sizes input) [1, M, - 1], Call_native_batch_norm [1, M, N],
                         Call_view [1, M, N] (sizes input)]
                 @ (if defined weight \<or> defined bias then [Alloc_result (sizes input)] else [])
                 @ [Call_view [M] stat_shape, Call_view [M] stat_shape])
         else (Inl InvalidView, copies @ [Call_view (sizes input) [1, M, - 1]]))"
proof -
  let ?s = "sizes input"
  let ?ss = "broadcast_stat_shape ?s ns"
  note c = check_layer_norm_inputs_Inr[OF chk]
  have nn: "list_all (\<lambda>d. 0 \<le> d) ?s"
    using wf by (simp add: wf_tensor_def)
  have "prod_list ?s = prod_list [1, M, N]"
    using M_times_N[OF chk] by (simp add: numel_def)
  note v1 = view_fresh[OF nn this]
  have s: "stat_shape_of ?s (length ?s - length ns) (length ?s) = ?ss"
    using c(1) by (rule stat_shape_of_eq)
  have "prod_list ?ss = prod_list [M]"
    using c(5) by (simp add: prod_list_broadcast_stat_shape)
  note v2 = view_fresh[OF broadcast_stat_shape_nonneg[OF nn] this]
  have a: "(if defined (borrow_from_optional_tensor wo) \<and> defined (borrow_from_optional_tensor bo)
            then addcmul (borrow_from_optional_tensor bo) (normalized_view input M N eps)
                   (borrow_from_optional_tensor wo) 1
          else if defined (borrow_from_optional_tensor wo)
            then tensor_mul (normalized_view input M N eps) (borrow_from_optional_tensor wo)
          else if defined (borrow_from_optional_tensor bo)
            then tensor_add (normalized_view input M N eps) (borrow_from_optional_tensor bo)
          else ret (normalized_view input M N eps)) =
         (if defined (borrow_from_optional_tensor wo) \<or> defined (borrow_from_optional_tensor bo)
          then (Inr (Tensor_impl ?s Contiguous
                  (affine_spec (borrow_from_optional_tensor wo) (borrow_from_optional_tensor bo)
                     (normalized_view input M N eps))), [Alloc_result ?s])
          else (Inr (normalized_view input M N eps), []))"
    by (rule affine_step[OF c(1,2,3,4)]) (simp add: normalized_view_def)
  have id: "\<not> defined W \<Longrightarrow> \<not> defined B \<Longrightarrow>
      Tensor_impl (sizes input) Contiguous (affine_spec W B (normalized_view input M N eps))
       = normalized_view input M N eps" for W B
    by (cases W; cases B) (simp_all add: affine_spec_def normalized_view_def)
  show ?thesis
    by (simp add: math_native_layer_norm_def Let_def chk expect_contiguous_eq
          expect_contiguous_opt_eq view_batch[OF chk] native_batch_norm_def v1 v2 s
          a[unfolded normalized_view_def] id[unfolded normalized_view_def]
          normalized_view_def eff_simps)
qed

lemma copy_events_no_result:
  "filter is_result (copy_events t) = []" "filter is_result (copy_events_opt T) = []"
  by (cases T; simp add: copy_events_def copy_events_opt_def is_result_def)+

subsection \<open>The gradient buffers\<close>

lemma no_kernel_call_in_allocations:
  "Call_LayerNormBackwardKernel M N a b c \<notin> set (copy_events t)"
  "Call_LayerNormBackwardKernel M N a b c \<notin> set (copy_events_opt T)"
  "Call_LayerNormBackwardKernel M N a b c \<notin> set (grad_alloc r z T)"
  by (cases T; simp add: copy_events_def copy_events_opt_def grad_alloc_def)+

lemma defined_fill_opt: "defined (fill_opt v T) = defined T"
  by (cases T) (simp_all add: fill_opt_def)

subsection \<open>The two forward paths over the real numbers\<close>




















subsection \<open>Evaluation at concrete arguments\<close>

lemmas tensor_library_defs =
  borrow_from_optional_tensor_def expect_contiguous_def expect_contiguous_opt_def
  is_contiguous_def at_empty_def deref_def empty_like_def zeros_like_def assigned_def
  infer_size_def admits_view_def view_def numel_def broadcast_def elementwise_def
  tensor_mul_def tensor_add_def addcmul_def has_shape_def check_layer_norm_inputs_def
  fill_def fill_opt_def LayerNormKernel_def LayerNormBackwardKernel_def native_batch_norm_def

lemmas layer_norm_defs =
  stat_shape_of_def layer_norm_impl_out_def layer_init_def u_layer_norm_def
  layer_norm_backward_def math_native_layer_norm_def mask0_def mask1_def mask2_def

section \<open>The forward path: statistics, degenerate batch, validation\<close>

text \<open>
  Claim C1, as amended. For a forward call on a well-formed input that passes validation
  with counts \<open>M\<close> and \<open>N\<close>: when \<open>M > 0\<close> the returned mean and rstd both have
  the shape \<open>input.shape[0:axis]\<close> followed by \<open>input.rank - axis\<close> ones; when
  \<open>M \<le> 0\<close> the short-circuit of \<open>layer_norm_impl_out\<close> returns before the
  reshape, and both keep the flat shape \<open>[M]\<close> they were allocated with.
\<close>

theorem forward_stat_shapes:
  assumes "wf_tensor input"
    and "check_layer_norm_inputs input ns (borrow_from_optional_tensor wo)
             (borrow_from_optional_tensor bo) = Inr (M, N)"
  shows "returned_stat_shapes (u_layer_norm input ns wo bo eps) =
           (if 0 < M
            then Some (broadcast_stat_shape (sizes input) ns,
                       broadcast_stat_shape (sizes input) ns)
            else Some ([M], [M]))"
  by (simp add: u_layer_norm_valid[OF assms] returned_stat_shapes_def Let_def)

theorem forward_stat_shapes_witness:
  "wf_tensor (Tensor_impl [2, 3, 4] Contiguous (Given 0))
   \<and> check_layer_norm_inputs (Tensor_impl [2, 3, 4] Contiguous (Given 0)) [3, 4]
        (borrow_from_optional_tensor None) (borrow_from_optional_tensor None) = Inr (2, 12)
   \<and> returned_stat_shapes
        (u_layer_norm (Tensor_impl [2, 3, 4] Contiguous (Given 0)) [3, 4] None None 0)
       = Some ([2, 1, 1], [2, 1, 1])"
proof -
  have wf: "wf_tensor (Tensor_impl [2, 3, 4] Contiguous (Given 0))"
    by (simp add: wf_tensor_def)
  have chk: "check_layer_norm_inputs (Tensor_impl [2, 3, 4] Contiguous (Given 0)) [3, 4]
        (borrow_from_optional_tensor None) (borrow_from_optional_tensor None) = Inr (2, 12)"
    by (simp add: check_layer_norm_inputs_def borrow_from_optional_tensor_def has_shape_def)
  show ?thesis
    using wf chk forward_stat_shapes[OF wf chk, of 0]
    by (simp add: broadcast_stat_shape_def)
qed

text \<open>
  The claim as stated fails for a degenerate batch: for an input of shape \<open>[0, 3]\<close>
  normalized over \<open>[3]\<close> the statistics come back with shape \<open>[0]\<close>, not
  \<open>[0, 1]\<close>.
\<close>

theorem forward_stat_shapes_degenerate_counterexample:
  "wf_tensor (Tensor_impl [0, 3] Contiguous (Given 0))
   \<and> check_layer_norm_inputs (Tensor_impl [0, 3] Contiguous (Given 0)) [3]
        (borrow_from_optional_tensor None) (borrow_from_optional_tensor None) = Inr (0, 3)
   \<and> returned_stat_shapes
        (u_layer_norm (Tensor_impl [0, 3] Contiguous (Given 0)) [3] None None 0)
       = Some ([0], [0])
   \<and> broadcast_stat_shape [0, 3] [3] = [0, 1]"
  by (simp add: wf_tensor_def check_layer_norm_inputs_def borrow_from_optional_tensor_def
        has_shape_def returned_stat_shapes_def u_layer_norm_def layer_init_def
        expect_contiguous_def expect_contiguous_opt_def is_contiguous_def at_empty_def
        empty_like_def deref_def layer_norm_impl_out_def eff_simps broadcast_stat_shape_def)

text \<open>
  Claim C6. For a forward call on a well-formed input that passes validation with
  \<open>M \<le> 0\<close>: \<open>layer_norm_impl_out\<close> returns at once, leaving its three outputs as
  they are; the call raises no error and returns an output of the input's shape, which has
  no elements, and two statistics of shape \<open>[0]\<close>; the forward kernel is not invoked.
\<close>

theorem forward_degenerate:
  assumes "wf_tensor input"
    and "check_layer_norm_inputs input ns (borrow_from_optional_tensor wo)
             (borrow_from_optional_tensor bo) = Inr (M, N)"
    and "M \<le> 0"
  shows "layer_norm_impl_out out mean rstd X ns gamma beta eps M N = ret (out, mean, rstd)
       \<and> fst (u_layer_norm input ns wo bo eps) =
           Inr (Tensor_impl (sizes input) Contiguous Uninitialized,
                Tensor_impl [0] Contiguous Uninitialized,
                Tensor_impl [0] Contiguous Uninitialized)
       \<and> prod_list (sizes input) = 0
       \<and> \<not> list_ex is_fwd_kernel (snd (u_layer_norm input ns wo bo eps))"
proof -
  have M: "M = 0"
    using M_nonneg[OF assms(2,1)] assms(3) by simp
  have "numel input = 0"
    using M_times_N[OF assms(2)] M by simp
  then show ?thesis
    using assms(3) M
    by (simp add: u_layer_norm_valid[OF assms(1,2)] layer_norm_impl_out_degenerate ret_def
          numel_def copy_events_no_kernel copy_events_opt_no_kernel)
       (simp add: is_fwd_kernel_def)
qed

theorem forward_degenerate_witness:
  "wf_tensor (Tensor_impl [0, 3] (Strided (\<lambda>s. True)) (Given 0))
   \<and> check_layer_norm_inputs (Tensor_impl [0, 3] (Strided (\<lambda>s. True)) (Given 0)) [3]
        (borrow_from_optional_tensor None) (borrow_from_optional_tensor None) = Inr (0, 3)
   \<and> layer_norm_impl_out (Tensor_impl [0, 3] Contiguous Uninitialized)
         (Tensor_impl [0] Contiguous Uninitialized) (Tensor_impl [0] Contiguous Uninitialized)
         (Tensor_impl [0, 3] Contiguous (Given 0)) [3] Undefined Undefined 0 0 3 =
       (Inr (Tensor_impl [0, 3] Contiguous Uninitialized,
             Tensor_impl [0] Contiguous Uninitialized,
             Tensor_impl [0] Contiguous Uninitialized), [])
   \<and> u_layer_norm (Tensor_impl [0, 3] (Strided (\<lambda>s. True)) (Given 0)) [3] None None 0 =
       (Inr (Tensor_impl [0, 3] Contiguous Uninitialized,
             Tensor_impl [0] Contiguous Uninitialized,
             Tensor_impl [0] Contiguous Uninitialized),
        [Alloc_contiguous_copy [0, 3], Alloc_empty [0], Alloc_empty [0], Alloc_empty [0, 3]])"
proof -
  let ?input = "Tensor_impl [0, 3] (Strided (\<lambda>s. True)) (Given 0)"
  have wf: "wf_tensor ?input"
    by (simp add: wf_tensor_def)
  have chk: "check_layer_norm_inputs ?input [3]
        (borrow_from_optional_tensor None) (borrow_from_optional_tensor None) = Inr (0, 3)"
    by (simp add: check_layer_norm_inputs_def borrow_from_optional_tensor_def has_shape_def)
  have tr: "snd (u_layer_norm ?input [3] None None 0) =
      [Alloc_contiguous_copy [0, 3], Alloc_empty [0], Alloc_empty [0], Alloc_empty [0, 3]]"
    by (simp add: u_layer_norm_def layer_init_def check_layer_norm_inputs_def has_shape_def
        borrow_from_optional_tensor_def
        expect_contiguous_def expect_contiguous_opt_def is_contiguous_def at_empty_def
        empty_like_def deref_def layer_norm_impl_out_def eff_simps)
  show ?thesis
    using wf chk tr
      forward_degenerate[OF wf chk, of "Tensor_impl [0, 3] Contiguous Uninitialized"
        "Tensor_impl [0] Contiguous Uninitialized" "Tensor_impl [0] Contiguous Uninitialized"
        "Tensor_impl [0, 3] Contiguous (Given 0)" Undefined Undefined 0]
    by (simp add: prod_eq_iff ret_def)
qed

text \<open>
  Claim C3 does not hold of \<open>layer_init\<close>, which calls \<open>expect_contiguous\<close> on the
  input before it validates the shapes: for a non-contiguous input of shape
  \<open>[2, 3, 4]\<close> and the normalized shape \<open>[5]\<close> the contiguous copy is allocated
  first and \<open>InvalidShape\<close> is raised after it. On the same arguments
  \<open>math_native_layer_norm\<close>, which validates first, raises before any allocation.
\<close>

theorem forward_invalid_shape_copies_first:
  "u_layer_norm (Tensor_impl [2, 3, 4] (Strided (\<lambda>s. False)) (Given 0)) [5] None None 0 =
     (Inl InvalidShape, [Alloc_contiguous_copy [2, 3, 4]])
   \<and> list_ex is_alloc
        (snd (u_layer_norm (Tensor_impl [2, 3, 4] (Strided (\<lambda>s. False)) (Given 0)) [5]
                None None 0))
   \<and> math_native_layer_norm (Tensor_impl [2, 3, 4] (Strided (\<lambda>s. False)) (Given 0)) [5]
       None None 0 = (Inl InvalidShape, [])"
  by (simp add: u_layer_norm_def layer_init_def math_native_layer_norm_def
        check_layer_norm_inputs_def borrow_from_optional_tensor_def
        expect_contiguous_def is_contiguous_def is_alloc_def eff_simps)

section \<open>The backward path: kernel invocation, gradient mask, degenerate batch\<close>

text \<open>
  Claim C2, as amended. The backward orchestrator invokes the backward kernel exactly once
  when validation passes, \<open>M > 0\<close> and the buffers of the requested scale and bias
  gradients can be allocated, whatever the gradient mask: the mask only decides which of
  the three buffers the kernel receives. It never invokes the kernel when \<open>M \<le> 0\<close>,
  when validation fails, or when an allocation raises.
\<close>

theorem backward_kernel_invocations:
  "filter is_bwd_kernel (snd (layer_norm_backward dY input ns mean rstd wo bo m)) =
     (case check_layer_norm_inputs input ns (borrow_from_optional_tensor wo)
             (borrow_from_optional_tensor bo) of
        Inl e \<Rightarrow> []
      | Inr (M, N) \<Rightarrow>
          if 0 < M \<and> (mask1 m \<longrightarrow> defined (borrow_from_optional_tensor wo))
                   \<and> (mask2 m \<longrightarrow> defined (borrow_from_optional_tensor bo))
          then [Call_LayerNormBackwardKernel M N (mask0 m) (mask1 m) (mask2 m)]
          else [])"
proof (cases "check_layer_norm_inputs input ns (borrow_from_optional_tensor wo)
             (borrow_from_optional_tensor bo)")
  case (Inl e)
  then show ?thesis
    by (simp add: layer_norm_backward_invalid)
next
  case (Inr MN)
  obtain M N where MN: "MN = (M, N)"
    by (cases MN)
  show ?thesis
    using Inr unfolding MN
    by (simp add: layer_norm_backward_valid Let_def grad_alloc_no_kernel
          copy_events_filter_bwd is_bwd_kernel_def)
qed

theorem backward_kernel_invocations_witness:
  "filter is_bwd_kernel
     (snd (layer_norm_backward (Tensor_impl [2, 3] Contiguous (Given 0))
             (Tensor_impl [2, 3] Contiguous (Given 1)) [3]
             (Tensor_impl [2, 1] Contiguous (Given 2)) (Tensor_impl [2, 1] Contiguous (Given 3))
             (Some (Defined (Tensor_impl [3] Contiguous (Given 4)))) None (True, True, False)))
   = [Call_LayerNormBackwardKernel 2 3 True True False]"
  using backward_kernel_invocations[of "Tensor_impl [2, 3] Contiguous (Given 0)"
          "Tensor_impl [2, 3] Contiguous (Given 1)" "[3]"
          "Tensor_impl [2, 1] Contiguous (Given 2)" "Tensor_impl [2, 1] Contiguous (Given 3)"
          "Some (Defined (Tensor_impl [3] Contiguous (Given 4)))" None "(True, True, False)"]
  by (simp add: check_layer_norm_inputs_def has_shape_def borrow_from_optional_tensor_def
        mask0_def mask1_def mask2_def)

text \<open>
  The claim as stated fails: with all three flags false and \<open>M = 2\<close> the kernel is
  invoked, with three absent buffers.
\<close>

theorem backward_kernel_all_flags_false_counterexample:
  "check_layer_norm_inputs (Tensor_impl [2, 3] Contiguous (Given 1)) [3]
      (borrow_from_optional_tensor None) (borrow_from_optional_tensor None) = Inr (2, 3)
   \<and> layer_norm_backward (Tensor_impl [2, 3] Contiguous (Given 0))
        (Tensor_impl [2, 3] Contiguous (Given 1)) [3]
        (Tensor_impl [2, 1] Contiguous (Given 2)) (Tensor_impl [2, 1] Contiguous (Given 3))
        None None (False, False, False)
     = (Inr (Undefined, Undefined, Undefined),
        [Call_LayerNormBackwardKernel 2 3 False False False])"
  by (simp add: tensor_library_defs layer_norm_defs eff_simps Let_def)

text \<open>
  Claim C5, as amended. For every backward call and each of the eight masks: when
  validation passes and no gradient of an absent scale or bias is requested, the call
  returns, the gradients whose flag is true are defined tensors, and those whose flag is
  false are the undefined tensor, the sentinel for an absent output, which is no
  zero-filled array. When the gradient of an absent scale or bias is requested, the call
  raises and returns nothing, as it does when validation fails. Whenever the backward
  kernel is invoked, the buffers it is handed are defined exactly where the mask says; that
  the kernel leaves an absent buffer absent is its contract (section 6).
\<close>

theorem backward_mask_fidelity:
  "returned_definedness (layer_norm_backward dY input ns mean rstd wo bo m) =
     (case check_layer_norm_inputs input ns (borrow_from_optional_tensor wo)
             (borrow_from_optional_tensor bo) of
        Inl e \<Rightarrow> None
      | Inr (M, N) \<Rightarrow>
          if (mask1 m \<and> \<not> defined (borrow_from_optional_tensor wo))
             \<or> (mask2 m \<and> \<not> defined (borrow_from_optional_tensor bo))
          then None
          else Some (mask0 m, mask1 m, mask2 m))
   \<and> (\<forall>M N a b c.
         Call_LayerNormBackwardKernel M N a b c
           \<in> set (snd (layer_norm_backward dY input ns mean rstd wo bo m))
         \<longrightarrow> a = mask0 m \<and> b = mask1 m \<and> c = mask2 m)"
proof (cases "check_layer_norm_inputs input ns (borrow_from_optional_tensor wo)
             (borrow_from_optional_tensor bo)")
  case (Inl e)
  then show ?thesis
    by (simp add: layer_norm_backward_invalid returned_definedness_def)
next
  case (Inr MN)
  obtain M N where MN: "MN = (M, N)"
    by (cases MN)
  have g: "defined (grad_buffer r z T) = (r \<and> defined T)" for r z T
    by (cases T) (simp_all add: grad_buffer_def fresh_like_def)
  show ?thesis
    using Inr unfolding MN
    by (auto simp: layer_norm_backward_valid Let_def returned_definedness_def
          defined_fill_opt g no_kernel_call_in_allocations)
qed

theorem backward_mask_fidelity_witness:
  "returned_definedness
       (layer_norm_backward (Tensor_impl [2, 3] Contiguous (Given 0))
          (Tensor_impl [2, 3] Contiguous (Given 1)) [3]
          (Tensor_impl [2, 1] Contiguous (Given 2)) (Tensor_impl [2, 1] Contiguous (Given 3))
          (Some (Defined (Tensor_impl [3] Contiguous (Given 4))))
          (Some (Defined (Tensor_impl [3] Contiguous (Given 5)))) (True, True, True))
     = Some (True, True, True)
   \<and> returned_definedness
       (layer_norm_backward (Tensor_impl [2, 3] Contiguous (Given 0))
          (Tensor_impl [2, 3] Contiguous (Given 1)) [3]
          (Tensor_impl [2, 1] Contiguous (Given 2)) (Tensor_impl [2, 1] Contiguous (Given 3))
          (Some (Defined (Tensor_impl [3] Contiguous (Given 4))))
          (Some (Defined (Tensor_impl [3] Contiguous (Given 5)))) (True, True, False))
     = Some (True, True, False)
   \<and> returned_definedness
       (layer_norm_backward (Tensor_impl [2, 3] Contiguous (Given 0))
          (Tensor_impl [2, 3] Contiguous (Given 1)) [3]
          (Tensor_impl [2, 1] Contiguous (Given 2)) (Tensor_impl [2, 1] Contiguous (Given 3))
          (Some (Defined (Tensor_impl [3] Contiguous (Given 4))))
          (Some (Defined (Tensor_impl [3] Contiguous (Given 5)))) (True, False, True))
     = Some (True, False, True)
   \<and> returned_definedness
       (layer_norm_backward (Tensor_impl [2, 3] Contiguous (Given 0))
          (Tensor_impl [2, 3] Contiguous (Given 1)) [3]
          (Tensor_impl [2, 1] Contiguous (Given 2)) (Tensor_impl [2, 1] Contiguous (Given 3))
          (Some (Defined (Tensor_impl [3] Contiguous (Given 4))))
          (Some (Defined (Tensor_impl [3] Contiguous (Given 5)))) (True, False, False))
     = Some (True, False, False)
   \<and> returned_definedness
       (layer_norm_backward (Tensor_impl [2, 3] Contiguous (Given 0))
          (Tensor_impl [2, 3] Contiguous (Given 1)) [3]
          (Tensor_impl [2, 1] Contiguous (Given 2)) (Tensor_impl [2, 1] Contiguous (Given 3))
          (Some (Defined (Tensor_impl [3] Contiguous (Given 4))))
          (Some (Defined (Tensor_impl [3] Contiguous (Given 5)))) (False, True, True))
     = Some (False, True, True)
   \<and> returned_definedness
       (layer_norm_backward (Tensor_impl [2, 3] Contiguous (Given 0))
          (Tensor_impl [2, 3] Contiguous (Given 1)) [3]
          (Tensor_impl [2, 1] Contiguous (Given 2)) (Tensor_impl [2, 1] Contiguous (Given 3))
          (Some (Defined (Tensor_impl [3] Contiguous (Given 4))))
          (Some (Defined (Tensor_impl [3] Contiguous (Given 5)))) (False, True, False))
     = Some (False, True, False)
   \<and> returned_definedness
       (layer_norm_backward (Tensor_impl [2, 3] Contiguous (Given 0))
          (Tensor_impl [2, 3] Contiguous (Given 1)) [3]
          (Tensor_impl [2, 1] Contiguous (Given 2)) (Tensor_impl [2, 1] Contiguous (Given 3))
          (Some (Defined (Tensor_impl [3] Contiguous (Given 4))))
          (Some (Defined (Tensor_impl [3] Contiguous (Given 5)))) (False, False, True))
     = Some (False, False, True)
   \<and> returned_definedness
       (layer_norm_backward (Tensor_impl [2, 3] Contiguous (Given 0))
          (Tensor_impl [2, 3] Contiguous (Given 1)) [3]
          (Tensor_impl [2, 1] Contiguous (Given 2)) (Tensor_impl [2, 1] Contiguous (Given 3))
          (Some (Defined (Tensor_impl [3] Contiguous (Given 4))))
          (Some (Defined (Tensor_impl [3] Contiguous (Given 5)))) (False, False, False))
     = Some (False, False, False)"
  using backward_mask_fidelity[of "Tensor_impl [2, 3] Contiguous (Given 0)" "Tensor_impl [2, 3] Contiguous (Given 1)" "[3]" "Tensor_impl [2, 1] Contiguous (Given 2)" "Tensor_impl [2, 1] Contiguous (Given 3)" "Some (Defined (Tensor_impl [3] Contiguous (Given 4)))" "Some (Defined (Tensor_impl [3] Contiguous (Given 5)))" "(True, True, True)"]
    backward_mask_fidelity[of "Tensor_impl [2, 3] Contiguous (Given 0)" "Tensor_impl [2, 3] Contiguous (Given 1)" "[3]" "Tensor_impl [2, 1] Contiguous (Given 2)" "Tensor_impl [2, 1] Contiguous (Given 3)" "Some (Defined (Tensor_impl [3] Contiguous (Given 4)))" "Some (Defined (Tensor_impl [3] Contiguous (Given 5)))" "(True, True, False)"]
    backward_mask_fidelity[of "Tensor_impl [2, 3] Contiguous (Given 0)" "Tensor_impl [2, 3] Contiguous (Given 1)" "[3]" "Tensor_impl [2, 1] Contiguous (Given 2)" "Tensor_impl [2, 1] Contiguous (Given 3)" "Some (Defined (Tensor_impl [3] Contiguous (Given 4)))" "Some (Defined (Tensor_impl [3] Contiguous (Given 5)))" "(True, False, True)"]
    backward_mask_fidelity[of "Tensor_impl [2, 3] Contiguous (Given 0)" "Tensor_impl [2, 3] Contiguous (Given 1)" "[3]" "Tensor_impl [2, 1] Contiguous (Given 2)" "Tensor_impl [2, 1] Contiguous (Given 3)" "Some (Defined (Tensor_impl [3] Contiguous (Given 4)))" "Some (Defined (Tensor_impl [3] Contiguous (Given 5)))" "(True, False, False)"]
    backward_mask_fidelity[of "Tensor_impl [2, 3] Contiguous (Given 0)" "Tensor_impl [2, 3] Contiguous (Given 1)" "[3]" "Tensor_impl [2, 1] Contiguous (Given 2)" "Tensor_impl [2, 1] Contiguous (Given 3)" "Some (Defined (Tensor_impl [3] Contiguous (Given 4)))" "Some (Defined (Tensor_impl [3] Contiguous (Given 5)))" "(False, True, True)"]
    backward_mask_fidelity[of "Tensor_impl [2, 3] Contiguous (Given 0)" "Tensor_impl [2, 3] Contiguous (Given 1)" "[3]" "Tensor_impl [2, 1] Contiguous (Given 2)" "Tensor_impl [2, 1] Contiguous (Given 3)" "Some (Defined (Tensor_impl [3] Contiguous (Given 4)))" "Some (Defined (Tensor_impl [3] Contiguous (Given 5)))" "(False, True, False)"]
    backward_mask_fidelity[of "Tensor_impl [2, 3] Contiguous (Given 0)" "Tensor_impl [2, 3] Contiguous (Given 1)" "[3]" "Tensor_impl [2, 1] Contiguous (Given 2)" "Tensor_impl [2, 1] Contiguous (Given 3)" "Some (Defined (Tensor_impl [3] Contiguous (Given 4)))" "Some (Defined (Tensor_impl [3] Contiguous (Given 5)))" "(False, False, True)"]
    backward_mask_fidelity[of "Tensor_impl [2, 3] Contiguous (Given 0)" "Tensor_impl [2, 3] Contiguous (Given 1)" "[3]" "Tensor_impl [2, 1] Contiguous (Given 2)" "Tensor_impl [2, 1] Contiguous (Given 3)" "Some (Defined (Tensor_impl [3] Contiguous (Given 4)))" "Some (Defined (Tensor_impl [3] Contiguous (Given 5)))" "(False, False, False)"]
  by (simp add: check_layer_norm_inputs_def has_shape_def borrow_from_optional_tensor_def
        mask0_def mask1_def mask2_def)

text \<open>
  The claim as stated fails where the scale gradient is requested and there is no scale:
  the allocation of the gradient raises, and no output is returned.
\<close>

theorem backward_absent_scale_counterexample:
  "check_layer_norm_inputs (Tensor_impl [2, 3] Contiguous (Given 1)) [3]
      (borrow_from_optional_tensor None) (borrow_from_optional_tensor None) = Inr (2, 3)
   \<and> layer_norm_backward (Tensor_impl [2, 3] Contiguous (Given 0))
        (Tensor_impl [2, 3] Contiguous (Given 1)) [3]
        (Tensor_impl [2, 1] Contiguous (Given 2)) (Tensor_impl [2, 1] Contiguous (Given 3))
        None None (False, True, False)
     = (Inl UndefinedTensor, [])"
  by (simp add: tensor_library_defs layer_norm_defs eff_simps Let_def)

text \<open>
  Claim C4, as amended. For every backward call on a well-formed input that passes
  validation with \<open>M \<le> 0\<close>, and each of the eight masks: when no gradient of an
  absent scale or bias is requested, the call returns; a requested scale or bias gradient
  is a fresh buffer of the shape of the scale or bias, filled with zeros; a requested
  input gradient is a fresh buffer of the input's shape, which has no elements, and is not
  zero-filled; an output that is not requested is absent. When the gradient of an absent
  scale or bias is requested, the call raises at that allocation. In every case the
  backward kernel is not invoked.
\<close>

theorem backward_degenerate:
  assumes "wf_tensor input"
    and "check_layer_norm_inputs input ns (borrow_from_optional_tensor wo)
             (borrow_from_optional_tensor bo) = Inr (M, N)"
    and "M \<le> 0"
  shows "layer_norm_backward dY input ns mean rstd wo bo m =
     (if mask1 m \<and> \<not> defined (borrow_from_optional_tensor wo)
      then (Inl UndefinedTensor,
            copy_events input @ copy_events_opt (borrow_from_optional_tensor wo)
              @ copy_events_opt (borrow_from_optional_tensor bo)
              @ (if mask0 m then [Alloc_empty (sizes input)] else []))
      else if mask2 m \<and> \<not> defined (borrow_from_optional_tensor bo)
      then (Inl UndefinedTensor,
            copy_events input @ copy_events_opt (borrow_from_optional_tensor wo)
              @ copy_events_opt (borrow_from_optional_tensor bo)
              @ (if mask0 m then [Alloc_empty (sizes input)] else [])
              @ grad_alloc (mask1 m) True (borrow_from_optional_tensor wo))
      else (Inr (if mask0 m then Defined (Tensor_impl (sizes input) Contiguous Uninitialized)
                 else Undefined,
                 if mask1 m then fresh_like Zeros (borrow_from_optional_tensor wo)
                 else Undefined,
                 if mask2 m then fresh_like Zeros (borrow_from_optional_tensor bo)
                 else Undefined),
            copy_events input @ copy_events_opt (borrow_from_optional_tensor wo)
              @ copy_events_opt (borrow_from_optional_tensor bo)
              @ (if mask0 m then [Alloc_empty (sizes input)] else [])
              @ grad_alloc (mask1 m) True (borrow_from_optional_tensor wo)
              @ grad_alloc (mask2 m) True (borrow_from_optional_tensor bo)))
   \<and> prod_list (sizes input) = 0
   \<and> \<not> list_ex is_bwd_kernel (snd (layer_norm_backward dY input ns mean rstd wo bo m))"
proof -
  have "M = 0"
    using M_nonneg[OF assms(2,1)] assms(3) by simp
  then have n: "prod_list (sizes input) = 0"
    using M_times_N[OF assms(2)] by (simp add: numel_def)
  have aX: "grad_alloc r False (Defined input) = (if r then [Alloc_empty (sizes input)] else [])"
    for r
    by (simp add: grad_alloc_def)
  have bX: "grad_buffer r False (Defined input) =
      (if r then Defined (Tensor_impl (sizes input) Contiguous Uninitialized) else Undefined)"
    for r
    by (simp add: grad_buffer_def fresh_like_def)
  have bz: "grad_buffer r True T = (if r then fresh_like Zeros T else Undefined)" for r T
    by (simp add: grad_buffer_def)
  show ?thesis
    using assms(3) n
    by (simp add: layer_norm_backward_valid[OF assms(2)] Let_def aX bX bz
          copy_events_no_kernel copy_events_opt_no_kernel grad_alloc_no_bwd_kernel
          is_bwd_kernel_def)
qed

theorem backward_degenerate_witness:
  "wf_tensor (Tensor_impl [0, 3] Contiguous (Given 1))
   \<and> check_layer_norm_inputs (Tensor_impl [0, 3] Contiguous (Given 1)) [3]
        (borrow_from_optional_tensor (Some (Defined (Tensor_impl [3] Contiguous (Given 4)))))
        (borrow_from_optional_tensor (Some (Defined (Tensor_impl [3] Contiguous (Given 5))))) = Inr (0, 3)
   \<and> layer_norm_backward (Tensor_impl [0, 3] Contiguous (Given 0))
          (Tensor_impl [0, 3] Contiguous (Given 1)) [3]
          (Tensor_impl [0] Contiguous (Given 2)) (Tensor_impl [0] Contiguous (Given 3))
          (Some (Defined (Tensor_impl [3] Contiguous (Given 4))))
          (Some (Defined (Tensor_impl [3] Contiguous (Given 5)))) (True, True, True)
     = (Inr (Defined (Tensor_impl [0, 3] Contiguous Uninitialized),
             Defined (Tensor_impl [3] Contiguous Zeros),
             Defined (Tensor_impl [3] Contiguous Zeros)),
        [Alloc_empty [0, 3], Alloc_zeros [3], Alloc_zeros [3]])
   \<and> layer_norm_backward (Tensor_impl [0, 3] Contiguous (Given 0))
          (Tensor_impl [0, 3] Contiguous (Given 1)) [3]
          (Tensor_impl [0] Contiguous (Given 2)) (Tensor_impl [0] Contiguous (Given 3))
          (Some (Defined (Tensor_impl [3] Contiguous (Given 4))))
          (Some (Defined (Tensor_impl [3] Contiguous (Given 5)))) (True, True, False)
     = (Inr (Defined (Tensor_impl [0, 3] Contiguous Uninitialized),
             Defined (Tensor_impl [3] Contiguous Zeros),
             Undefined),
        [Alloc_empty [0, 3], Alloc_zeros [3]])
   \<and> layer_norm_backward (Tensor_impl [0, 3] Contiguous (Given 0))
          (Tensor_impl [0, 3] Contiguous (Given 1)) [3]
          (Tensor_impl [0] Contiguous (Given 2)) (Tensor_impl [0] Contiguous (Given 3))
          (Some (Defined (Tensor_impl [3] Contiguous (Given 4))))
          (Some (Defined (Tensor_impl [3] Contiguous (Given 5)))) (True, False, True)
     = (Inr (Defined (Tensor_impl [0, 3] Contiguous Uninitialized),
             Undefined,
             Defined (Tensor_impl [3] Contiguous Zeros)),
        [Alloc_empty [0, 3], Alloc_zeros [3]])
   \<and> layer_norm_backward (Tensor_impl [0, 3] Contiguous (Given 0))
          (Tensor_impl [0, 3] Contiguous (Given 1)) [3]
          (Tensor_impl [0] Contiguous (Given 2)) (Tensor_impl [0] Contiguous (Given 3))
          (Some (Defined (Tensor_impl [3] Contiguous (Given 4))))
          (Some (Defined (Tensor_impl [3] Contiguous (Given 5)))) (True, False, False)
     = (Inr (Defined (Tensor_impl [0, 3] Contiguous Uninitialized),
             Undefined,
             Undefined),
        [Alloc_empty [0, 3]])
   \<and> layer_norm_backward (Tensor_impl [0, 3] Contiguous (Given 0))
          (Tensor_impl [0, 3] Contiguous (Given 1)) [3]
          (Tensor_impl [0] Contiguous (Given 2)) (Tensor_impl [0] Contiguous (Given 3))
          (Some (Defined (Tensor_impl [3] Contiguous (Given 4))))
          (Some (Defined (Tensor_impl [3] Contiguous (Given 5)))) (False, True, True)
     = (Inr (Undefined,
             Defined (Tensor_impl [3] Contiguous Zeros),
             Defined (Tensor_impl [3] Contiguous Zeros)),
        [Alloc_zeros [3], Alloc_zeros [3]])
   \<and> layer_norm_backward (Tensor_impl [0, 3] Contiguous (Given 0))
          (Tensor_impl [0, 3] Contiguous (Given 1)) [3]
          (Tensor_impl [0] Contiguous (Given 2)) (Tensor_impl [0] Contiguous (Given 3))
          (Some (Defined (Tensor_impl [3] Contiguous (Given 4))))
          (Some (Defined (Tensor_impl [3] Contiguous (Given 5)))) (False, True, False)
     = (Inr (Undefined,
             Defined (Tensor_impl [3] Contiguous Zeros),
             Undefined),
        [Alloc_zeros [3]])
   \<and> layer_norm_backward (Tensor_impl [0, 3] Contiguous (Given 0))
          (Tensor_impl [0, 3] Contiguous (Given 1)) [3]
          (Tensor_impl [0] Contiguous (Given 2)) (Tensor_impl [0] Contiguous (Given 3))
          (Some (Defined (Tensor_impl [3] Contiguous (Given 4))))
          (Some (Defined (Tensor_impl [3] Contiguous (Given 5)))) (False, False, True)
     = (Inr (Undefined,
             Undefined,
             Defined (Tensor_impl [3] Contiguous Zeros)),
        [Alloc_zeros [3]])
   \<and> layer_norm_backward (Tensor_impl [0, 3] Contiguous (Given 0))
          (Tensor_impl [0, 3] Contiguous (Given 1)) [3]
          (Tensor_impl [0] Contiguous (Given 2)) (Tensor_impl [0] Contiguous (Given 3))
          (Some (Defined (Tensor_impl [3] Contiguous (Given 4))))
          (Some (Defined (Tensor_impl [3] Contiguous (Given 5)))) (False, False, False)
     = (Inr (Undefined,
             Undefined,
             Undefined),
        [])"
proof -
  have wf: "wf_tensor (Tensor_impl [0, 3] Contiguous (Given 1))"
    by (simp add: wf_tensor_def)
  have chk: "check_layer_norm_inputs (Tensor_impl [0, 3] Contiguous (Given 1)) [3]
        (borrow_from_optional_tensor (Some (Defined (Tensor_impl [3] Contiguous (Given 4)))))
        (borrow_from_optional_tensor (Some (Defined (Tensor_impl [3] Contiguous (Given 5))))) = Inr (0, 3)"
    by (simp add: check_layer_norm_inputs_def has_shape_def borrow_from_optional_tensor_def)
  have M: "(0::int) \<le> 0"
    by simp
  note t = backward_degenerate[OF wf chk M, of "Tensor_impl [0, 3] Contiguous (Given 0)" "Tensor_impl [0] Contiguous (Given 2)" "Tensor_impl [0] Contiguous (Given 3)"]
  show ?thesis
    using wf chk
      t[of "(True, True, True)", THEN conjunct1]
      t[of "(True, True, False)", THEN conjunct1]
      t[of "(True, False, True)", THEN conjunct1]
      t[of "(True, False, False)", THEN conjunct1]
      t[of "(False, True, True)", THEN conjunct1]
      t[of "(False, True, False)", THEN conjunct1]
      t[of "(False, False, True)", THEN conjunct1]
      t[of "(False, False, False)", THEN conjunct1]
    by (simp add: borrow_from_optional_tensor_def mask0_def mask1_def mask2_def
          copy_events_def copy_events_opt_def is_contiguous_def grad_alloc_def fresh_like_def)
qed

text \<open>
  The claim as stated fails where the bias gradient is requested and there is no bias: the
  scale gradient is allocated and zero-filled, then the allocation of the bias gradient
  raises, and no gradient is returned.
\<close>

theorem backward_degenerate_absent_bias_counterexample:
  "wf_tensor (Tensor_impl [0, 3] Contiguous (Given 1))
   \<and> check_layer_norm_inputs (Tensor_impl [0, 3] Contiguous (Given 1)) [3]
        (borrow_from_optional_tensor (Some (Defined (Tensor_impl [3] Contiguous (Given 4)))))
        (borrow_from_optional_tensor None) = Inr (0, 3)
   \<and> layer_norm_backward (Tensor_impl [0, 3] Contiguous (Given 0))
        (Tensor_impl [0, 3] Contiguous (Given 1)) [3]
        (Tensor_impl [0] Contiguous (Given 2)) (Tensor_impl [0] Contiguous (Given 3))
        (Some (Defined (Tensor_impl [3] Contiguous (Given 4)))) None (False, True, True)
     = (Inl UndefinedTensor, [Alloc_zeros [3]])"
  by (simp add: wf_tensor_def tensor_library_defs layer_norm_defs eff_simps Let_def)

section \<open>The path through batch normalization\<close>

text \<open>
  Claim C7. On every well-formed input that passes validation with counts \<open>M\<close> and
  \<open>N\<close>, the fallback path returns exactly when the view \<open>{1, M, -1}\<close> succeeds, and
  then its output has the shape of the input and is the affine step applied to the
  normalized output in that shape: one \<open>addcmul\<close> of bias, output and scale when both
  are present, one multiplication when only the scale is, one addition when only the bias
  is, and the normalized output itself when neither is. The trace holds one elementwise
  result in the first three cases and none in the last.
\<close>

theorem fallback_affine_branch:
  assumes "wf_tensor input"
    and "check_layer_norm_inputs input ns (borrow_from_optional_tensor wo)
             (borrow_from_optional_tensor bo) = Inr (M, N)"
  shows "fst (math_native_layer_norm input ns wo bo eps) =
           (if 0 < M \<and> admits_view input [1, M, N]
            then Inr (Tensor_impl (sizes input) Contiguous
                        (case borrow_from_optional_tensor wo of
                           Defined w \<Rightarrow>
                             (case borrow_from_optional_tensor bo of
                                Defined b \<Rightarrow> Addcmul b (normalized_view input M N eps) w 1
                              | Undefined \<Rightarrow> Mul (normalized_view input M N eps) w)
                         | Undefined \<Rightarrow>
                             (case borrow_from_optional_tensor bo of
                                Defined b \<Rightarrow> Add (normalized_view input M N eps) b
                              | Undefined \<Rightarrow> val (normalized_view input M N eps))),
                      Tensor_impl (broadcast_stat_shape (sizes input) ns) Contiguous
                        (native_batch_norm_result 1
                           (Tensor_impl [1, M, N] (layout input) (val input))
                           Undefined Undefined Undefined Undefined True 0 eps),
                      Tensor_impl (broadcast_stat_shape (sizes input) ns) Contiguous
                        (native_batch_norm_result 2
                           (Tensor_impl [1, M, N] (layout input) (val input))
                           Undefined Undefined Undefined Undefined True 0 eps))
            else Inl InvalidView)
       \<and> filter is_result (snd (math_native_layer_norm input ns wo bo eps)) =
           (if 0 < M \<and> admits_view input [1, M, N]
               \<and> (defined (borrow_from_optional_tensor wo)
                    \<or> defined (borrow_from_optional_tensor bo))
            then [Alloc_result (sizes input)] else [])"
  by (cases "borrow_from_optional_tensor wo"; cases "borrow_from_optional_tensor bo")
     (simp_all add: math_native_layer_norm_valid[OF assms] Let_def affine_spec_def
        copy_events_no_result is_result_def)

theorem fallback_affine_branch_witness:
  "wf_tensor (Tensor_impl [2, 3] Contiguous (Given 0))
   \<and> fst (math_native_layer_norm (Tensor_impl [2, 3] Contiguous (Given 0)) [3] (Some (Defined (Tensor_impl [3] Contiguous (Given 1)))) (Some (Defined (Tensor_impl [3] Contiguous (Given 2)))) 0)
     = Inr (Tensor_impl [2, 3] Contiguous
          (Addcmul (Tensor_impl [3] Contiguous (Given 2))
           (Tensor_impl [2, 3] Contiguous
              (native_batch_norm_result 0 (Tensor_impl [1, 2, 3] Contiguous (Given 0))
                 Undefined Undefined Undefined Undefined True 0 0))
           (Tensor_impl [3] Contiguous (Given 1)) 1),
        (Tensor_impl [2, 1] Contiguous
           (native_batch_norm_result 1 (Tensor_impl [1, 2, 3] Contiguous (Given 0))
              Undefined Undefined Undefined Undefined True 0 0)),
        (Tensor_impl [2, 1] Contiguous
           (native_batch_norm_result 2 (Tensor_impl [1, 2, 3] Contiguous (Given 0))
              Undefined Undefined Undefined Undefined True 0 0)))
   \<and> fst (math_native_layer_norm (Tensor_impl [2, 3] Contiguous (Given 0)) [3] (Some (Defined (Tensor_impl [3] Contiguous (Given 1)))) None 0)
     = Inr (Tensor_impl [2, 3] Contiguous
          (Mul (Tensor_impl [2, 3] Contiguous
              (native_batch_norm_result 0 (Tensor_impl [1, 2, 3] Contiguous (Given 0))
                 Undefined Undefined Undefined Undefined True 0 0))
           (Tensor_impl [3] Contiguous (Given 1))),
        (Tensor_impl [2, 1] Contiguous
           (native_batch_norm_result 1 (Tensor_impl [1, 2, 3] Contiguous (Given 0))
              Undefined Undefined Undefined Undefined True 0 0)),
        (Tensor_impl [2, 1] Contiguous
           (native_batch_norm_result 2 (Tensor_impl [1, 2, 3] Contiguous (Given 0))
              Undefined Undefined Undefined Undefined True 0 0)))
   \<and> fst (math_native_layer_norm (Tensor_impl [2, 3] Contiguous (Given 0)) [3] None (Some (Defined (Tensor_impl [3] Contiguous (Given 2)))) 0)
     = Inr (Tensor_impl [2, 3] Contiguous
          (Add (Tensor_impl [2, 3] Contiguous
              (native_batch_norm_result 0 (Tensor_impl [1, 2, 3] Contiguous (Given 0))
                 Undefined Undefined Undefined Undefined True 0 0))
           (Tensor_impl [3] Contiguous (Given 2))),
        (Tensor_impl [2, 1] Contiguous
           (native_batch_norm_result 1 (Tensor_impl [1, 2, 3] Contiguous (Given 0))
              Undefined Undefined Undefined Undefined True 0 0)),
        (Tensor_impl [2, 1] Contiguous
           (native_batch_norm_result 2 (Tensor_impl [1, 2, 3] Contiguous (Given 0))
              Undefined Undefined Undefined Undefined True 0 0)))
   \<and> fst (math_native_layer_norm (Tensor_impl [2, 3] Contiguous (Given 0)) [3] None None 0)
     = Inr (Tensor_impl [2, 3] Contiguous
          (native_batch_norm_result 0 (Tensor_impl [1, 2, 3] Contiguous (Given 0))
                 Undefined Undefined Undefined Undefined True 0 0),
        (Tensor_impl [2, 1] Contiguous
           (native_batch_norm_result 1 (Tensor_impl [1, 2, 3] Contiguous (Given 0))
              Undefined Undefined Undefined Undefined True 0 0)),
        (Tensor_impl [2, 1] Contiguous
           (native_batch_norm_result 2 (Tensor_impl [1, 2, 3] Contiguous (Given 0))
              Undefined Undefined Undefined Undefined True 0 0)))"
proof -
  have wf: "wf_tensor (Tensor_impl [2, 3] Contiguous (Given 0))"
    by (simp add: wf_tensor_def)
  have chk0: "check_layer_norm_inputs (Tensor_impl [2, 3] Contiguous (Given 0)) [3] (borrow_from_optional_tensor (Some (Defined (Tensor_impl [3] Contiguous (Given 1)))))
        (borrow_from_optional_tensor (Some (Defined (Tensor_impl [3] Contiguous (Given 2))))) = Inr (2, 3)"
    by (simp add: check_layer_norm_inputs_def has_shape_def borrow_from_optional_tensor_def)
  have chk1: "check_layer_norm_inputs (Tensor_impl [2, 3] Contiguous (Given 0)) [3] (borrow_from_optional_tensor (Some (Defined (Tensor_impl [3] Contiguous (Given 1)))))
        (borrow_from_optional_tensor None) = Inr (2, 3)"
    by (simp add: check_layer_norm_inputs_def has_shape_def borrow_from_optional_tensor_def)
  have chk2: "check_layer_norm_inputs (Tensor_impl [2, 3] Contiguous (Given 0)) [3] (borrow_from_optional_tensor None)
        (borrow_from_optional_tensor (Some (Defined (Tensor_impl [3] Contiguous (Given 2))))) = Inr (2, 3)"
    by (simp add: check_layer_norm_inputs_def has_shape_def borrow_from_optional_tensor_def)
  have chk3: "check_layer_norm_inputs (Tensor_impl [2, 3] Contiguous (Given 0)) [3] (borrow_from_optional_tensor None)
        (borrow_from_optional_tensor None) = Inr (2, 3)"
    by (simp add: check_layer_norm_inputs_def has_shape_def borrow_from_optional_tensor_def)
  show ?thesis
    using wf fallback_affine_branch[OF wf chk0, of 0] fallback_affine_branch[OF wf chk1, of 0]
      fallback_affine_branch[OF wf chk2, of 0] fallback_affine_branch[OF wf chk3, of 0]
    by (simp add: borrow_from_optional_tensor_def admits_view_def normalized_view_def
          broadcast_stat_shape_def)
qed

text \<open>
  Claim C10, as amended. The fallback path has no degenerate-batch short-circuit: for
  every well-formed input that passes validation, the first thing it does after the
  contiguity copies is to attempt the view \<open>{1, M, -1}\<close>. When that view succeeds, which
  needs \<open>M > 0\<close>, batch normalization is invoked next on the \<open>{1, M, N}\<close> view and the
  call returns a result. When it does not succeed, as for every \<open>M \<le> 0\<close> where the
  inferred dimension is undefined, the call raises there, and batch normalization is not
  reached. No call returns a result without having invoked batch normalization.
\<close>

theorem fallback_no_short_circuit:
  assumes "wf_tensor input"
    and "check_layer_norm_inputs input ns (borrow_from_optional_tensor wo)
             (borrow_from_optional_tensor bo) = Inr (M, N)"
  shows "(if 0 < M \<and> admits_view input [1, M, N]
         then (\<exists>res. fst (math_native_layer_norm input ns wo bo eps) = Inr res)
            \<and> (\<exists>post. snd (math_native_layer_norm input ns wo bo eps) =
                   copy_events input @ copy_events_opt (borrow_from_optional_tensor wo)
                     @ Call_view (sizes input) [1, M, - 1]
                     # Call_native_batch_norm [1, M, N] # post)
         else math_native_layer_norm input ns wo bo eps =
                (Inl InvalidView,
                 copy_events input @ copy_events_opt (borrow_from_optional_tensor wo)
                   @ [Call_view (sizes input) [1, M, - 1]]))
       \<and> (\<forall>res. fst (math_native_layer_norm input ns wo bo eps) = Inr res
              \<longrightarrow> list_ex is_batch_norm (snd (math_native_layer_norm input ns wo bo eps)))"
  by (simp add: math_native_layer_norm_valid[OF assms] Let_def is_batch_norm_def)

theorem fallback_no_short_circuit_witness:
  "wf_tensor (Tensor_impl [2, 0] Contiguous (Given 0))
   \<and> check_layer_norm_inputs (Tensor_impl [2, 0] Contiguous (Given 0)) [0]
        (borrow_from_optional_tensor None) (borrow_from_optional_tensor None) = Inr (2, 0)
   \<and> (0::int) < 2 \<and> admits_view (Tensor_impl [2, 0] Contiguous (Given 0)) [1, 2, 0]
   \<and> (\<exists>res. fst (math_native_layer_norm (Tensor_impl [2, 0] Contiguous (Given 0)) [0]
                    None None 0) = Inr res)
   \<and> (\<exists>post. snd (math_native_layer_norm (Tensor_impl [2, 0] Contiguous (Given 0)) [0]
                     None None 0) =
               Call_view [2, 0] [1, 2, - 1] # Call_native_batch_norm [1, 2, 0] # post)"
proof -
  let ?input = "Tensor_impl [2, 0] Contiguous (Given 0)"
  have wf: "wf_tensor ?input"
    by (simp add: wf_tensor_def)
  have chk: "check_layer_norm_inputs ?input [0] (borrow_from_optional_tensor None)
        (borrow_from_optional_tensor None) = Inr (2, 0)"
    by (simp add: check_layer_norm_inputs_def has_shape_def borrow_from_optional_tensor_def)
  have av: "admits_view ?input [1, 2, 0]"
    by (simp add: admits_view_def)
  show ?thesis
    using wf chk av fallback_no_short_circuit[where eps = 0, OF wf chk]
    by (simp add: copy_events_def copy_events_opt_def is_contiguous_def
          borrow_from_optional_tensor_def)
qed

text \<open>
  The claim as stated fails where it has batch normalization invoked for every accepted
  input: an input of shape \<open>[0, 3]\<close> normalized over \<open>[3]\<close> passes validation with
  \<open>M = 0\<close>, the view raises, and the trace ends there.
\<close>

theorem fallback_degenerate_batch_counterexample:
  "wf_tensor (Tensor_impl [0, 3] Contiguous (Given 0))
   \<and> check_layer_norm_inputs (Tensor_impl [0, 3] Contiguous (Given 0)) [3]
        (borrow_from_optional_tensor None) (borrow_from_optional_tensor None) = Inr (0, 3)
   \<and> math_native_layer_norm (Tensor_impl [0, 3] Contiguous (Given 0)) [3] None None 0
       = (Inl InvalidView, [Call_view [0, 3] [1, 0, - 1]])"
  by (simp add: wf_tensor_def tensor_library_defs layer_norm_defs eff_simps Let_def)

section \<open>The two forward paths compared\<close>




section \<open>The public entry point\<close>

text \<open>
  Claim C9. \<open>layer_norm\<close> does not look at its last argument: with the flag true and
  with the flag false it yields the same outcome and the same events, those of
  \<open>layer_norm_new\<close>. The outcome is the first component of what the native forward
  operation returns, or the error it raises, and the events are those of that operation.
\<close>

theorem layer_norm_ignores_flag:
  "layer_norm native_layer_norm input ns wo bo eps True
     = layer_norm native_layer_norm input ns wo bo eps False
   \<and> layer_norm native_layer_norm input ns wo bo eps flag
     = layer_norm_new native_layer_norm input ns wo bo eps
   \<and> fst (layer_norm native_layer_norm input ns wo bo eps flag)
     = map_sum (\<lambda>e. e) get0 (fst (native_layer_norm input ns wo bo eps))
   \<and> snd (layer_norm native_layer_norm input ns wo bo eps flag)
     = snd (native_layer_norm input ns wo bo eps)"
proof -
  obtain r tr where r: "native_layer_norm input ns wo bo eps = (r, tr)"
    by (cases "native_layer_norm input ns wo bo eps")
  show ?thesis
    by (cases r) (simp_all add: layer_norm_def layer_norm_new_def r eff_simps)
qed

theorem layer_norm_ignores_flag_witness:
  "layer_norm u_layer_norm (Tensor_impl [2, 3] Contiguous (Given 0)) [3] None None 0 True
     = layer_norm u_layer_norm (Tensor_impl [2, 3] Contiguous (Given 0)) [3] None None 0 False
   \<and> fst (layer_norm u_layer_norm (Tensor_impl [2, 3] Contiguous (Given 0)) [3] None None 0
           True)
     = Inr (Tensor_impl [2, 3] Contiguous
              (LayerNormKernel_result 0 (Tensor_impl [2, 3] Contiguous (Given 0))
                 Undefined Undefined 2 3 0))"
proof -
  have run: "fst (u_layer_norm (Tensor_impl [2, 3] Contiguous (Given 0)) [3] None None 0)
      = Inr (Tensor_impl [2, 3] Contiguous
              (LayerNormKernel_result 0 (Tensor_impl [2, 3] Contiguous (Given 0))
                 Undefined Undefined 2 3 0),
             Tensor_impl [2, 1] Contiguous
              (LayerNormKernel_result 1 (Tensor_impl [2, 3] Contiguous (Given 0))
                 Undefined Undefined 2 3 0),
             Tensor_impl [2, 1] Contiguous
              (LayerNormKernel_result 2 (Tensor_impl [2, 3] Contiguous (Given 0))
                 Undefined Undefined 2 3 0))"
    by (simp add: tensor_library_defs layer_norm_defs eff_simps Let_def)
  note t = layer_norm_ignores_flag[of u_layer_norm "Tensor_impl [2, 3] Contiguous (Given 0)"
            "[3]" None None 0 True]
  show ?thesis
  proof (intro conjI)
    show "layer_norm u_layer_norm (Tensor_impl [2, 3] Contiguous (Given 0)) [3] None None 0 True
       = layer_norm u_layer_norm (Tensor_impl [2, 3] Contiguous (Given 0)) [3] None None 0 False"
      using t by (rule conjunct1)
    show "fst (layer_norm u_layer_norm (Tensor_impl [2, 3] Contiguous (Given 0)) [3] None None 0
           True)
     = Inr (Tensor_impl [2, 3] Contiguous
              (LayerNormKernel_result 0 (Tensor_impl [2, 3] Contiguous (Given 0))
                 Undefined Undefined 2 3 0))"
      using t[THEN conjunct2, THEN conjunct2, THEN conjunct1] by (simp add: run get0_def)
  qed
qed

end
